theory Spec2Isabelle
  imports Complex_Main
begin

section \<open>Data model\<close>

text \<open>
  The component \<^verbatim>\<open>PoseDetection.tsx\<close> works on the objects the pose estimator returns.
  A \<^verbatim>\<open>Keypoint\<close> has the coordinates \<^verbatim>\<open>x\<close> and \<^verbatim>\<open>y\<close>, an optional \<^verbatim>\<open>score\<close> and
  an optional \<^verbatim>\<open>name\<close>; a \<^verbatim>\<open>Pose\<close> carries the array \<^verbatim>\<open>keypoints\<close>. The fields are
  prefixed with \<open>kp_\<close> here, since a record field is a constant of the whole theory.
  An optional field that is \<^verbatim>\<open>undefined\<close> is \<open>None\<close>.

  The type of the coordinates is a parameter. The alignment verdict computes with the
  coordinates and is modelled on \<open>number\<close>, the JavaScript numbers below, so that it
  covers every value a coordinate can have. The canvas calls are modelled for finite
  coordinates, given by their real value.
\<close>

record 'n Keypoint =
  kp_x :: 'n
  kp_y :: 'n
  kp_score :: "real option"
  kp_name :: "string option"

record 'n Pose =
  keypoints :: "'n Keypoint list"

text \<open>
  \<^verbatim>\<open>pose.keypoints.find(kp => kp.name === n)\<close>: the first keypoint of the array whose
  name is the string \<open>n\<close>, or \<^verbatim>\<open>undefined\<close>. A keypoint without a name never matches.
\<close>

definition named :: "string \<Rightarrow> 'n Keypoint \<Rightarrow> bool" where
  "named n kp = (kp_name kp = Some n)"

definition findKeypoint :: "'n Pose \<Rightarrow> string \<Rightarrow> 'n Keypoint option" where
  "findKeypoint pose n = find (named n) (keypoints pose)"

section \<open>JavaScript numbers\<close>

text \<open>
  A JavaScript number is an IEEE 754 double: a finite value, one of the two infinities,
  or NaN. A finite double is given by its real value (the two zeros are not told
  apart: subtraction, \<^verbatim>\<open>Math.abs\<close> and the comparison give the same answers for both).

  An arithmetic operation on finite doubles returns the exact result rounded to the
  nearest double, ties to even. A double has 53 significant bits, so for \<open>x\<close> with
  \<open>2 ^ E \<le> \<bar>x\<bar> < 2 ^ (E + 1)\<close> the doubles around \<open>x\<close> are the multiples of
  \<open>2 ^ (E - 52)\<close>, and of \<open>2 ^ - 1074\<close> in the subnormal range; \<open>last_place\<close> is this
  exponent. A result that rounds to \<open>2 ^ 1024\<close> or more in magnitude overflows to an
  infinity.
\<close>

datatype number = is_Finite: Finite real | PosInfinity | NegInfinity | NaN

definition round_even :: "real \<Rightarrow> int" where
  "round_even q =
     (let n = \<lfloor>q\<rfloor> in
      if q - of_int n < 1 / 2 then n
      else if 1 / 2 < q - of_int n then n + 1
      else if even n then n else n + 1)"

definition last_place :: "real \<Rightarrow> int" where
  "last_place x = max (\<lfloor>log 2 \<bar>x\<bar>\<rfloor> - 52) (- 1074)"

definition round_double :: "real \<Rightarrow> number" where
  "round_double x =
     (if x = 0 then Finite 0
      else
        (let e = last_place x;
             r = of_int (round_even (\<bar>x\<bar> / 2 powi e)) * 2 powi e
         in if 2 powi 1024 \<le> r then (if 0 < x then PosInfinity else NegInfinity)
            else Finite (sgn x * r)))"

text \<open>The operator \<^verbatim>\<open>-\<close> on numbers.\<close>

fun js_sub :: "number \<Rightarrow> number \<Rightarrow> number" where
  "js_sub (Finite a) (Finite b) = round_double (a - b)"
| "js_sub (Finite a) PosInfinity = NegInfinity"
| "js_sub (Finite a) NegInfinity = PosInfinity"
| "js_sub PosInfinity (Finite b) = PosInfinity"
| "js_sub PosInfinity NegInfinity = PosInfinity"
| "js_sub PosInfinity PosInfinity = NaN"
| "js_sub NegInfinity (Finite b) = NegInfinity"
| "js_sub NegInfinity PosInfinity = NegInfinity"
| "js_sub NegInfinity NegInfinity = NaN"
| "js_sub NaN v = NaN"
| "js_sub (Finite a) NaN = NaN"
| "js_sub PosInfinity NaN = NaN"
| "js_sub NegInfinity NaN = NaN"

text \<open>\<^verbatim>\<open>Math.abs\<close>.\<close>

fun js_abs :: "number \<Rightarrow> number" where
  "js_abs (Finite a) = Finite \<bar>a\<bar>"
| "js_abs PosInfinity = PosInfinity"
| "js_abs NegInfinity = PosInfinity"
| "js_abs NaN = NaN"

text \<open>The operator \<^verbatim>\<open><\<close> on numbers: a comparison with NaN is false.\<close>

fun js_lt :: "number \<Rightarrow> number \<Rightarrow> bool" where
  "js_lt (Finite a) (Finite b) = (a < b)"
| "js_lt (Finite a) PosInfinity = True"
| "js_lt (Finite a) NegInfinity = False"
| "js_lt PosInfinity v = False"
| "js_lt NegInfinity (Finite b) = True"
| "js_lt NegInfinity PosInfinity = True"
| "js_lt NegInfinity NegInfinity = False"
| "js_lt NegInfinity NaN = False"
| "js_lt NaN v = False"
| "js_lt (Finite a) NaN = False"

text \<open>The rounded magnitude of a real that is not zero, before the test for overflow.\<close>

definition rounded_magnitude :: "real \<Rightarrow> real" where
  "rounded_magnitude x = of_int (round_even (\<bar>x\<bar> / 2 powi last_place x)) * 2 powi last_place x"

text \<open>A pose with finite coordinates as the pose of numbers it is.\<close>

definition js_keypoint :: "real Keypoint \<Rightarrow> number Keypoint" where
  "js_keypoint kp =
     \<lparr>kp_x = Finite (kp_x kp), kp_y = Finite (kp_y kp), kp_score = kp_score kp,
      kp_name = kp_name kp\<rparr>"

definition js_pose :: "real Pose \<Rightarrow> number Pose" where
  "js_pose pose = \<lparr>keypoints = map js_keypoint (keypoints pose)\<rparr>"

section \<open>The alignment verdict\<close>

text \<open>
  \<^verbatim>\<open>isPerfectAngle\<close> (lines 31 to 43): the four lookups, then the test that all four
  results are truthy (an object always is, \<^verbatim>\<open>undefined\<close> never), then the two
  differences, computed and compared as JavaScript numbers.
\<close>

definition isPerfectAngle :: "number Pose \<Rightarrow> bool" where
  "isPerfectAngle pose =
     (let leftShoulder = findKeypoint pose ''left_shoulder'';
          rightShoulder = findKeypoint pose ''right_shoulder'';
          leftHip = findKeypoint pose ''left_hip'';
          rightHip = findKeypoint pose ''right_hip''
      in case (leftShoulder, rightShoulder, leftHip, rightHip) of
           (Some ls, Some rs, Some lh, Some rh) \<Rightarrow>
             (let shoulderDiff = js_abs (js_sub (kp_y ls) (kp_y rs));
                  hipDiff = js_abs (js_sub (kp_y lh) (kp_y rh))
              in js_lt shoulderDiff (Finite 20) \<and> js_lt hipDiff (Finite 20))
         | _ \<Rightarrow> False)"

text \<open>A keypoint name is present in a pose when some keypoint of the array carries it.\<close>

definition present :: "'n Pose \<Rightarrow> string \<Rightarrow> bool" where
  "present pose n = (\<exists>kp \<in> set (keypoints pose). kp_name kp = Some n)"

text \<open>The y-coordinate the code reads for a name: that of the first keypoint so named.\<close>

definition y_of :: "number Pose \<Rightarrow> string \<Rightarrow> number" where
  "y_of pose n = (case findKeypoint pose n of Some kp \<Rightarrow> kp_y kp | None \<Rightarrow> NaN)"

definition mk :: "string \<Rightarrow> 'n \<Rightarrow> 'n \<Rightarrow> real \<Rightarrow> 'n Keypoint" where
  "mk n px py s = \<lparr>kp_x = px, kp_y = py, kp_score = Some s, kp_name = Some n\<rparr>"

text \<open>Scenario 1 of the specification, and a pose whose shoulders are at 20 and \<open>2 ^ - 60\<close>.\<close>

definition scenario1 :: "real Pose" where
  "scenario1 = \<lparr>keypoints =
     [mk ''left_shoulder'' 10 100 0.9, mk ''right_shoulder'' 50 105 0.9,
      mk ''left_hip'' 12 200 0.9, mk ''right_hip'' 48 215 0.9]\<rparr>"

definition near_twenty :: "real Pose" where
  "near_twenty = \<lparr>keypoints =
     [mk ''left_shoulder'' 10 20 0.9, mk ''right_shoulder'' 50 (1 / 2 ^ 60) 0.9,
      mk ''left_hip'' 12 200 0.9, mk ''right_hip'' 48 215 0.9]\<rparr>"

section \<open>The drawing surface\<close>

text \<open>
  The component draws through a \<^verbatim>\<open>CanvasRenderingContext2D\<close>. The browser object is
  modelled by the part of its state the component's calls read or write: the
  transformation matrix with the two styles and the line width (the drawing state that
  \<^verbatim>\<open>save\<close> pushes and \<^verbatim>\<open>restore\<close> pops), the stack of saved drawing states, the current
  path, and the bitmap as the list of shapes painted on it so far.
  A matrix \<open>(a, b, c, d, e, f)\<close> sends the point \<open>(x, y)\<close> to
  \<open>(a * x + c * y + e, b * x + d * y + f)\<close>.
\<close>

type_synonym matrix = "real \<times> real \<times> real \<times> real \<times> real \<times> real"

definition identity :: matrix where
  "identity = (1, 0, 0, 1, 0, 0)"

datatype segment =
    MoveTo real real
  | LineTo real real
  | Arc real real real real real

type_synonym path = "(matrix \<times> segment) list"

datatype paint =
    is_Filled: Filled path string
  | is_Stroked: Stroked path string real
  | is_Cleared: Cleared matrix real real real real

record drawing_state =
  transform :: matrix
  fillStyle :: string
  strokeStyle :: string
  lineWidth :: real

record canvas =
  width :: nat
  height :: nat
  ds :: drawing_state
  saved :: "drawing_state list"
  current_path :: path
  bitmap :: "paint list"

definition default_state :: drawing_state where
  "default_state =
     \<lparr>transform = identity, fillStyle = ''#000000'', strokeStyle = ''#000000'', lineWidth = 1\<rparr>"

text \<open>A canvas as the browser creates it: 300 by 150, default state, nothing painted.\<close>

definition new_canvas :: canvas where
  "new_canvas = \<lparr>width = 300, height = 150, ds = default_state, saved = [],
     current_path = [], bitmap = []\<rparr>"

text \<open>
  \<^verbatim>\<open>canvas.width = w\<close> and \<^verbatim>\<open>canvas.height = h\<close>: assigning a dimension resets the
  context to its default state, empties the stack and the path, and clears the bitmap.
\<close>

definition set_width :: "nat \<Rightarrow> canvas \<Rightarrow> canvas" where
  "set_width w c = \<lparr>width = w, height = height c, ds = default_state, saved = [],
     current_path = [], bitmap = []\<rparr>"

definition set_height :: "nat \<Rightarrow> canvas \<Rightarrow> canvas" where
  "set_height h c = \<lparr>width = width c, height = h, ds = default_state, saved = [],
     current_path = [], bitmap = []\<rparr>"

definition save :: "canvas \<Rightarrow> canvas" where
  "save c = c\<lparr>saved := ds c # saved c\<rparr>"

text \<open>\<^verbatim>\<open>restore\<close> on an empty stack does nothing.\<close>

definition restore :: "canvas \<Rightarrow> canvas" where
  "restore c = (case saved c of [] \<Rightarrow> c | d # rest \<Rightarrow> c\<lparr>ds := d, saved := rest\<rparr>)"

definition scale_matrix :: "real \<Rightarrow> real \<Rightarrow> matrix \<Rightarrow> matrix" where
  "scale_matrix sx sy m = (case m of (a, b, c, d, e, f) \<Rightarrow> (a * sx, b * sx, c * sy, d * sy, e, f))"

definition translate_matrix :: "real \<Rightarrow> real \<Rightarrow> matrix \<Rightarrow> matrix" where
  "translate_matrix tx ty m =
     (case m of (a, b, c, d, e, f) \<Rightarrow> (a, b, c, d, e + a * tx + c * ty, f + b * tx + d * ty))"

definition scale :: "real \<Rightarrow> real \<Rightarrow> canvas \<Rightarrow> canvas" where
  "scale sx sy c = c\<lparr>ds := (ds c)\<lparr>transform := scale_matrix sx sy (transform (ds c))\<rparr>\<rparr>"

definition translate :: "real \<Rightarrow> real \<Rightarrow> canvas \<Rightarrow> canvas" where
  "translate tx ty c = c\<lparr>ds := (ds c)\<lparr>transform := translate_matrix tx ty (transform (ds c))\<rparr>\<rparr>"

definition beginPath :: "canvas \<Rightarrow> canvas" where
  "beginPath c = c\<lparr>current_path := []\<rparr>"

definition add_segment :: "segment \<Rightarrow> canvas \<Rightarrow> canvas" where
  "add_segment sg c = c\<lparr>current_path := current_path c @ [(transform (ds c), sg)]\<rparr>"

definition moveTo :: "real \<Rightarrow> real \<Rightarrow> canvas \<Rightarrow> canvas" where
  "moveTo px py = add_segment (MoveTo px py)"

definition lineTo :: "real \<Rightarrow> real \<Rightarrow> canvas \<Rightarrow> canvas" where
  "lineTo px py = add_segment (LineTo px py)"

definition arc :: "real \<Rightarrow> real \<Rightarrow> real \<Rightarrow> real \<Rightarrow> real \<Rightarrow> canvas \<Rightarrow> canvas" where
  "arc px py r a0 a1 = add_segment (Arc px py r a0 a1)"

text \<open>
  The style setters. The component only assigns the colours \<^verbatim>\<open>'green'\<close> and \<^verbatim>\<open>'red'\<close>
  and the width 2; the canvas ignores a width that is not positive.
\<close>

definition set_fillStyle :: "string \<Rightarrow> canvas \<Rightarrow> canvas" where
  "set_fillStyle col c = c\<lparr>ds := (ds c)\<lparr>fillStyle := col\<rparr>\<rparr>"

definition set_strokeStyle :: "string \<Rightarrow> canvas \<Rightarrow> canvas" where
  "set_strokeStyle col c = c\<lparr>ds := (ds c)\<lparr>strokeStyle := col\<rparr>\<rparr>"

definition set_lineWidth :: "real \<Rightarrow> canvas \<Rightarrow> canvas" where
  "set_lineWidth w c = (if 0 < w then c\<lparr>ds := (ds c)\<lparr>lineWidth := w\<rparr>\<rparr> else c)"

definition fill :: "canvas \<Rightarrow> canvas" where
  "fill c = c\<lparr>bitmap := bitmap c @ [Filled (current_path c) (fillStyle (ds c))]\<rparr>"

definition stroke :: "canvas \<Rightarrow> canvas" where
  "stroke c = c\<lparr>bitmap := bitmap c @
     [Stroked (current_path c) (strokeStyle (ds c)) (lineWidth (ds c))]\<rparr>"

definition clearRect :: "real \<Rightarrow> real \<Rightarrow> real \<Rightarrow> real \<Rightarrow> canvas \<Rightarrow> canvas" where
  "clearRect px py w h c = c\<lparr>bitmap := bitmap c @ [Cleared (transform (ds c)) px py w h]\<rparr>"

section \<open>Rendering one pose\<close>

text \<open>
  The test \<^verbatim>\<open>kp.score !== undefined && kp.score > 0.5\<close>, written three times in
  \<^verbatim>\<open>detectPose\<close> (lines 89 and 114).
\<close>

definition confident :: "'n Keypoint \<Rightarrow> bool" where
  "confident kp = (case kp_score kp of None \<Rightarrow> False | Some s \<Rightarrow> s > 0.5)"

text \<open>\<^verbatim>\<open>drawLine\<close> (lines 62 to 69).\<close>

definition drawLine :: "real Keypoint \<Rightarrow> real Keypoint \<Rightarrow> string \<Rightarrow> canvas \<Rightarrow> canvas" where
  "drawLine from to color c =
     stroke (set_lineWidth 2 (set_strokeStyle color
       (lineTo (kp_x to) (kp_y to) (moveTo (kp_x from) (kp_y from) (beginPath c)))))"

text \<open>The body of \<^verbatim>\<open>pose.keypoints.forEach\<close> (lines 88 to 95).\<close>

definition drawKeypoint :: "string \<Rightarrow> real Keypoint \<Rightarrow> canvas \<Rightarrow> canvas" where
  "drawKeypoint color keypoint c =
     (if confident keypoint
      then fill (set_fillStyle color
             (arc (kp_x keypoint) (kp_y keypoint) 5 0 (2 * pi) (beginPath c)))
      else c)"

text \<open>The constant \<^verbatim>\<open>keypointPairs\<close> (lines 98 to 109).\<close>

definition keypointPairs :: "(string \<times> string) list" where
  "keypointPairs =
     [(''left_shoulder'', ''right_shoulder''),
      (''left_hip'', ''right_hip''),
      (''left_shoulder'', ''left_elbow''),
      (''left_elbow'', ''left_wrist''),
      (''right_shoulder'', ''right_elbow''),
      (''right_elbow'', ''right_wrist''),
      (''left_hip'', ''left_knee''),
      (''left_knee'', ''left_ankle''),
      (''right_hip'', ''right_knee''),
      (''right_knee'', ''right_ankle'')]"

text \<open>
  The body of \<^verbatim>\<open>keypointPairs.forEach\<close> (lines 111 to 117), in two steps: the two
  lookups with the test of line 114, giving the endpoints when the line is to be
  drawn, and the call of \<^verbatim>\<open>drawLine\<close>.
\<close>

definition edgeEndpoints :: "'n Pose \<Rightarrow> string \<times> string \<Rightarrow> ('n Keypoint \<times> 'n Keypoint) option" where
  "edgeEndpoints pose pair =
     (case pair of (fromName, toName) \<Rightarrow>
        (case findKeypoint pose fromName of
           None \<Rightarrow> None
         | Some fromKeypoint \<Rightarrow>
             (case findKeypoint pose toName of
                None \<Rightarrow> None
              | Some toKeypoint \<Rightarrow>
                  if confident fromKeypoint \<and> confident toKeypoint
                  then Some (fromKeypoint, toKeypoint) else None)))"

definition drawPair :: "real Pose \<Rightarrow> string \<Rightarrow> string \<times> string \<Rightarrow> canvas \<Rightarrow> canvas" where
  "drawPair pose color pair c =
     (case edgeEndpoints pose pair of
        None \<Rightarrow> c
      | Some (fromKeypoint, toKeypoint) \<Rightarrow> drawLine fromKeypoint toKeypoint color c)"

text \<open>
  The body of \<^verbatim>\<open>poses.forEach\<close> (lines 83 to 118). \<^verbatim>\<open>forEach\<close> visits the array in
  order, which is \<open>fold\<close>.
\<close>

definition poseColor :: "real Pose \<Rightarrow> string" where
  "poseColor pose = (let isPerfect = isPerfectAngle (js_pose pose) in if isPerfect then ''green'' else ''red'')"

definition drawPose :: "real Pose \<Rightarrow> canvas \<Rightarrow> canvas" where
  "drawPose pose c =
     (let color = poseColor pose;
          c1 = fold (drawKeypoint color) (keypoints pose) c
      in fold (drawPair pose color) keypointPairs c1)"

section \<open>One tick of the frame loop\<close>

text \<open>
  A thrown JavaScript value is modelled by the \<^verbatim>\<open>name\<close> the handlers read from it,
  \<open>None\<close> for a value without one.
  A tick reads the video element (\<^verbatim>\<open>readyState\<close>, \<^verbatim>\<open>videoWidth\<close>, \<^verbatim>\<open>videoHeight\<close>) and
  awaits the estimator, whose promise either rejects or resolves to an array of poses;
  a \<open>frame\<close> is what one tick observes of the two.
\<close>

datatype js_error = JsError (error_name: "string option")

record video =
  readyState :: nat
  videoWidth :: nat
  videoHeight :: nat

record frame =
  video_of :: video
  estimatePoses :: "js_error + real Pose list"

text \<open>
  What a tick leaves behind: the canvas, whether \<^verbatim>\<open>requestAnimationFrame(detectPose)\<close>
  was called, and the rejection of the tick's promise if the awaited estimator threw.
\<close>

record tick_result =
  canvas_after :: canvas
  scheduled :: bool
  rejected :: "js_error option"

text \<open>\<^verbatim>\<open>detectPose\<close> (lines 71 to 124).\<close>

definition detectPose :: "frame \<Rightarrow> canvas \<Rightarrow> tick_result" where
  "detectPose fr c =
     (if readyState (video_of fr) = 4 then
        (let c1 = set_width (videoWidth (video_of fr)) c;
             c2 = set_height (videoHeight (video_of fr)) c1;
             c3 = save c2;
             c4 = scale (- 1) 1 c3;
             c5 = translate (- real (width c4)) 0 c4
         in case estimatePoses fr of
              Inl e \<Rightarrow> \<lparr>canvas_after = c5, scheduled = False, rejected = Some e\<rparr>
            | Inr poses \<Rightarrow>
                (let c6 = clearRect 0 0 (real (width c5)) (real (height c5)) c5;
                     c7 = fold drawPose poses c6;
                     c8 = restore c7
                 in \<lparr>canvas_after = c8, scheduled = True, rejected = None\<rparr>))
      else \<lparr>canvas_after = c, scheduled = False, rejected = None\<rparr>)"

text \<open>
  The loop: the first call of line 126 and every call the browser makes for a
  scheduled tick. The list holds what the successive ticks observe; \<open>tick_starts\<close>
  gives the canvas as each tick that runs finds it, and \<open>ticks_run\<close> counts them.
\<close>

fun tick_starts :: "frame list \<Rightarrow> canvas \<Rightarrow> canvas list" where
  "tick_starts [] c = []"
| "tick_starts (fr # frs) c =
     c # (if scheduled (detectPose fr c)
          then tick_starts frs (canvas_after (detectPose fr c)) else [])"

definition ticks_run :: "frame list \<Rightarrow> canvas \<Rightarrow> nat" where
  "ticks_run frs c = length (tick_starts frs c)"

text \<open>The mirror transform of a canvas of width \<open>w\<close>: \<open>x\<close> goes to \<open>w - x\<close>.\<close>

definition mirror :: "nat \<Rightarrow> matrix" where
  "mirror w = (- 1, 0, 0, 1, real w, 0)"

section \<open>The shapes the specification names\<close>

text \<open>
  A filled circle of radius 5 at a keypoint, and a line of width 2 between two
  keypoints, each in a colour and under the transformation in force when it is painted.
\<close>

definition dot :: "matrix \<Rightarrow> string \<Rightarrow> real Keypoint \<Rightarrow> paint" where
  "dot m color kp = Filled [(m, Arc (kp_x kp) (kp_y kp) 5 0 (2 * pi))] color"

definition line :: "matrix \<Rightarrow> string \<Rightarrow> real Keypoint \<times> real Keypoint \<Rightarrow> paint" where
  "line m color ends =
     Stroked [(m, MoveTo (kp_x (fst ends)) (kp_y (fst ends))),
              (m, LineTo (kp_x (snd ends)) (kp_y (snd ends)))] color 2"

text \<open>The dots and the lines of one pose, in the order the code paints them.\<close>

definition dots :: "matrix \<Rightarrow> real Pose \<Rightarrow> paint list" where
  "dots m pose = map (dot m (poseColor pose)) (filter confident (keypoints pose))"

definition lines :: "matrix \<Rightarrow> real Pose \<Rightarrow> paint list" where
  "lines m pose = map (line m (poseColor pose)) (List.map_filter (edgeEndpoints pose) keypointPairs)"

section \<open>Changing a pose\<close>

text \<open>
  The specification speaks of a pose in which a keypoint is removed or its confidence
  is changed. \<open>withScores\<close> rewrites every score, \<open>lowerScore\<close> sets the score of the
  keypoints of one name, \<open>removeNamed\<close> drops the keypoints of one name.
\<close>

definition withScores :: "('n Keypoint \<Rightarrow> real option) \<Rightarrow> 'n Pose \<Rightarrow> 'n Pose" where
  "withScores g pose = pose\<lparr>keypoints := map (\<lambda>kp. kp\<lparr>kp_score := g kp\<rparr>) (keypoints pose)\<rparr>"

definition lowerScore :: "string \<Rightarrow> real \<Rightarrow> 'n Pose \<Rightarrow> 'n Pose" where
  "lowerScore n s = withScores (\<lambda>kp. if kp_name kp = Some n then Some s else kp_score kp)"

definition removeNamed :: "string \<Rightarrow> 'n Pose \<Rightarrow> 'n Pose" where
  "removeNamed n pose = pose\<lparr>keypoints := filter (\<lambda>kp. kp_name kp \<noteq> Some n) (keypoints pose)\<rparr>"

text \<open>Poses and frames used as concrete inputs.\<close>

definition arm :: "real Pose" where
  "arm = \<lparr>keypoints =
     [mk ''left_shoulder'' 10 100 0.9, mk ''left_elbow'' 20 150 0.9,
      mk ''left_wrist'' 30 200 0.9]\<rparr>"

definition two_dots :: "real Pose" where
  "two_dots = \<lparr>keypoints = [mk ''nose'' 1 2 0.9, mk ''left_eye'' 3 4 0.5]\<rparr>"

definition ready_frame :: frame where
  "ready_frame = \<lparr>video_of = \<lparr>readyState = 4, videoWidth = 640, videoHeight = 480\<rparr>,
     estimatePoses = Inr [scenario1]\<rparr>"

definition waiting_frame :: frame where
  "waiting_frame = \<lparr>video_of = \<lparr>readyState = 3, videoWidth = 640, videoHeight = 480\<rparr>,
     estimatePoses = Inr [scenario1]\<rparr>"

section \<open>Permission gate, initialization and error banner\<close>

text \<open>
  The rest of the component talks to the browser: the permission query, the two calls
  of \<^verbatim>\<open>getUserMedia\<close>, the three awaited calls that load the model, the two refs, the
  2d context and \<^verbatim>\<open>video.play()\<close>. What the browser answers in one run is a record.

  The two calls of the mount effect stand outside any \<^verbatim>\<open>try\<close>, so the way they fail
  matters: the call itself throws (as \<^verbatim>\<open>navigator.permissions.query\<close> does in a browser
  without the Permissions API, where \<^verbatim>\<open>navigator.permissions\<close> is undefined), or it
  returns a promise that rejects. The permission query fails in one of the two ways
  (\<open>Inl\<close>) or its promise resolves to a state (\<open>Inr\<close>). The other calls are awaited
  inside a \<^verbatim>\<open>try\<close>, where both ways of failing reach the same \<^verbatim>\<open>catch\<close>: they carry
  the thrown value, and \<open>None\<close> is a call that succeeds.
\<close>

datatype permission_state = Granted | Prompt | Denied

datatype failure = Thrown js_error | Rejected js_error

record browser =
  permission_query :: "failure + permission_state"
  probe_media :: "failure option"
  set_backend :: "js_error option"
  tf_ready :: "js_error option"
  create_detector :: "js_error option"
  refs_mounted :: bool
  context_2d :: bool
  get_user_media :: "js_error option"
  video_play :: "js_error option"

text \<open>
  The component's own state is the React state \<^verbatim>\<open>error\<close> (line 10). The calls it
  makes on the browser and on its state setter are recorded in order.
\<close>

datatype action =
    PermissionsQuery
  | GetUserMedia
  | StopTracks
  | SetBackend
  | TfReady
  | CreateDetector
  | GetContext
  | AttachStream
  | Play
  | DetectPoseCall
  | SetError "string option"
  | ConsoleLog string
  | ConsoleError string
  | Uncaught js_error

record component =
  error :: "string option"
  trace :: "action list"

definition emit :: "action \<Rightarrow> component \<Rightarrow> component" where
  "emit a s = s\<lparr>trace := trace s @ [a]\<rparr>"

definition setError :: "string option \<Rightarrow> component \<Rightarrow> component" where
  "setError v s = s\<lparr>error := v, trace := trace s @ [SetError v]\<rparr>"

text \<open>The chain of comparisons of \<^verbatim>\<open>handleError\<close> (lines 13 to 26).\<close>

definition errorMessage :: "js_error \<Rightarrow> string" where
  "errorMessage e =
     (if error_name e = Some ''NotAllowedError'' then
        ''Camera access was denied. Please allow camera access and try again.''
      else if error_name e = Some ''NotFoundError'' then
        ''No camera device found. Please ensure a camera is connected and try again.''
      else if error_name e = Some ''AbortError'' then
        ''The fetching process for the media resource was aborted. Please try again.''
      else if error_name e = Some ''NotReadableError'' then
        ''The media device is not readable. Please check your camera and try again.''
      else if error_name e = Some ''OverconstrainedError'' then
        ''The constraints specified are not supported by the device. Please check your camera settings and try again.''
      else if error_name e = Some ''SecurityError'' then
        ''Security error while accessing the camera. Please check your browser settings and try again.''
      else ''An error occurred while accessing the camera.'')"

text \<open>\<^verbatim>\<open>handleError\<close> (lines 12 to 29).\<close>

definition handleError :: "js_error \<Rightarrow> component \<Rightarrow> component" where
  "handleError e s =
     emit (ConsoleError ''Error accessing the webcam:'') (setError (Some (errorMessage e)) s)"

text \<open>
  \<^verbatim>\<open>startVideoStream\<close> (lines 45 to 131). \<^verbatim>\<open>new Error(...)\<close> has the name \<^verbatim>\<open>Error\<close>.
  The call \<^verbatim>\<open>detectPose()\<close> of line 126 starts the frame loop and is not awaited.
\<close>

definition startVideoStream :: "browser \<Rightarrow> component \<Rightarrow> component" where
  "startVideoStream b s =
     (if refs_mounted b then
        (let s1 = emit GetContext s in
         if \<not> context_2d b then handleError (JsError (Some ''Error'')) s1
         else
           (let s2 = emit GetUserMedia (emit (ConsoleLog ''Attempting to access user media...'') s1)
            in case get_user_media b of
                 Some e \<Rightarrow> handleError e s2
               | None \<Rightarrow>
                   (let s3 = emit Play (emit AttachStream s2)
                    in case video_play b of
                         Some e \<Rightarrow> handleError e s3
                       | None \<Rightarrow> emit DetectPoseCall s3)))
      else s)"

text \<open>\<^verbatim>\<open>loadModel\<close> (lines 133 to 144); \<open>modelError\<close> is its \<^verbatim>\<open>catch\<close> block.\<close>

definition modelError :: "component \<Rightarrow> component" where
  "modelError s =
     emit (ConsoleError ''Error loading the MoveNet model:'')
       (setError (Some ''Error loading the MoveNet model.'') s)"

definition loadModel :: "browser \<Rightarrow> component \<Rightarrow> component" where
  "loadModel b s =
     (let s1 = emit SetBackend s in
      case set_backend b of
        Some e \<Rightarrow> modelError s1
      | None \<Rightarrow>
          (let s2 = emit TfReady s1 in
           case tf_ready b of
             Some e \<Rightarrow> modelError s2
           | None \<Rightarrow>
               (let s3 = emit CreateDetector s2 in
                case create_detector b of
                  Some e \<Rightarrow> modelError s3
                | None \<Rightarrow> startVideoStream b s3)))"

text \<open>
  The effect run on mount (lines 146 to 167). The \<^verbatim>\<open>.catch\<close> of line 163 is attached to
  the promise that \<^verbatim>\<open>query(...).then(...)\<close> returns: it handles a rejected query and an
  exception thrown inside the \<^verbatim>\<open>then\<close> callback, such as a throwing call of
  \<^verbatim>\<open>getUserMedia\<close>. When the call of \<^verbatim>\<open>query\<close> itself throws, no promise exists yet and
  the exception leaves the effect uncaught.
\<close>

definition useEffect :: "browser \<Rightarrow> component \<Rightarrow> component" where
  "useEffect b s =
     (let s1 = emit PermissionsQuery s in
      case permission_query b of
        Inl (Thrown e) \<Rightarrow> emit (Uncaught e) s1
      | Inl (Rejected e) \<Rightarrow>
          setError (Some ''Unable to check camera permissions. Please try again.'')
            (emit (ConsoleError ''Error checking camera permissions:'') s1)
      | Inr Granted \<Rightarrow> loadModel b s1
      | Inr Prompt \<Rightarrow>
          (let s2 = emit GetUserMedia s1 in
           case probe_media b of
             Some (Thrown e) \<Rightarrow>
               setError (Some ''Unable to check camera permissions. Please try again.'')
                 (emit (ConsoleError ''Error checking camera permissions:'') s2)
           | Some (Rejected e) \<Rightarrow> handleError e s2
           | None \<Rightarrow> loadModel b (emit StopTracks s2))
      | Inr Denied \<Rightarrow>
          setError (Some ''Camera access is denied. Please enable camera permissions in your browser settings.'') s1)"

text \<open>\<^verbatim>\<open>retry\<close> (lines 169 to 172).\<close>

definition retry :: "browser \<Rightarrow> component \<Rightarrow> component" where
  "retry b s = loadModel b (setError None s)"

text \<open>
  The returned element tree (lines 174 to 189): the banner with the text and the Retry
  button is rendered when \<^verbatim>\<open>error\<close> is truthy, the video has the style
  \<^verbatim>\<open>display: error ? 'none' : 'block'\<close>, and the style of the canvas sets no
  \<^verbatim>\<open>display\<close>.
\<close>

record view =
  banner_text :: "string option"
  retry_button :: bool
  video_display :: "string option"
  canvas_display :: "string option"

definition truthy :: "string option \<Rightarrow> bool" where
  "truthy v = (case v of None \<Rightarrow> False | Some t \<Rightarrow> t \<noteq> [])"

definition render :: "component \<Rightarrow> view" where
  "render s =
     \<lparr>banner_text = (if truthy (error s) then error s else None),
      retry_button = truthy (error s),
      video_display = Some (if truthy (error s) then ''none'' else ''block''),
      canvas_display = None\<rparr>"

text \<open>An element is hidden by its own style when that sets \<^verbatim>\<open>display\<close> to \<^verbatim>\<open>none\<close>.\<close>

definition hidden :: "string option \<Rightarrow> bool" where
  "hidden d = (d = Some ''none'')"

text \<open>The component as mounted, and browsers used as concrete inputs.\<close>

definition mounted :: component where
  "mounted = \<lparr>error = None, trace = []\<rparr>"

definition willing :: browser where
  "willing = \<lparr>permission_query = Inr Granted, probe_media = None, set_backend = None,
     tf_ready = None, create_detector = None, refs_mounted = True, context_2d = True,
     get_user_media = None, video_play = None\<rparr>"

definition denying :: browser where
  "denying = willing\<lparr>permission_query := Inr Denied\<rparr>"

definition asking :: browser where
  "asking = willing\<lparr>permission_query := Inr Prompt\<rparr>"

definition broken_query :: browser where
  "broken_query = willing\<lparr>permission_query := Inl (Rejected (JsError (Some ''TypeError'')))\<rparr>"

definition no_permissions_api :: browser where
  "no_permissions_api = willing\<lparr>permission_query := Inl (Thrown (JsError (Some ''TypeError'')))\<rparr>"

text \<open>The actions a run adds to the trace it started with.\<close>

definition new_actions :: "component \<Rightarrow> component \<Rightarrow> action list" where
  "new_actions s s' = drop (length (trace s)) (trace s')"

section \<open>Properties of the arithmetic\<close>

text \<open>
  Rounding to the nearest double, and the comparison of a rounded magnitude with 20.
  The doubles between 16 and 32 are the multiples of \<open>2 ^ - 48\<close>, and 20 is an even
  one, so a real rounds to a double below 20 exactly when it is below the midpoint
  \<open>20 - 2 ^ - 49\<close> of 20 and the double before it.
\<close>

lemma round_even_near: "\<bar>of_int (round_even q) - q\<bar> \<le> 1 / 2"
  unfolding round_even_def Let_def by (auto; linarith)

lemma round_even_nonneg: "0 \<le> q \<Longrightarrow> 0 \<le> round_even q"
  unfolding round_even_def Let_def by auto

lemma round_even_less_even:
  assumes k: "even k"
  shows "round_even q < k \<longleftrightarrow> q < of_int k - 1 / 2"
proof -
  define n where "n = \<lfloor>q\<rfloor>"
  have lo: "of_int n \<le> q" and hi: "q < of_int n + 1"
    unfolding n_def by linarith+
  consider (low) "q - of_int n < 1 / 2" | (high) "1 / 2 < q - of_int n"
    | (tie_even) "q - of_int n = 1 / 2" "even n" | (tie_odd) "q - of_int n = 1 / 2" "odd n"
    by fastforce
  then show ?thesis
  proof cases
    case low
    then have r: "round_even q = n" by (simp add: round_even_def n_def)
    have "n < k \<longleftrightarrow> q < of_int k - 1 / 2"
    proof
      assume "n < k"
      then have "of_int n + 1 \<le> (of_int k :: real)" by linarith
      with low show "q < of_int k - 1 / 2" by linarith
    next
      assume "q < of_int k - 1 / 2"
      with lo have "(of_int n :: real) < of_int k" by linarith
      then show "n < k" by simp
    qed
    with r show ?thesis by simp
  next
    case high
    then have r: "round_even q = n + 1" by (simp add: round_even_def n_def)
    have "n + 1 < k \<longleftrightarrow> q < of_int k - 1 / 2"
    proof
      assume "n + 1 < k"
      then have "of_int n + 2 \<le> (of_int k :: real)" by linarith
      with hi show "q < of_int k - 1 / 2" by linarith
    next
      assume "q < of_int k - 1 / 2"
      with high have "(of_int (n + 1) :: real) < of_int k" by simp
      then show "n + 1 < k" by (simp only: of_int_less_iff)
    qed
    with r show ?thesis by simp
  next
    case tie_even
    then have r: "round_even q = n" by (simp add: round_even_def n_def)
    have "n < k \<longleftrightarrow> q < of_int k - 1 / 2"
    proof
      assume "n < k"
      with k tie_even(2) have "n + 2 \<le> k" by presburger
      then have "of_int n + 2 \<le> (of_int k :: real)" by linarith
      with tie_even(1) show "q < of_int k - 1 / 2" by linarith
    next
      assume "q < of_int k - 1 / 2"
      with lo have "(of_int n :: real) < of_int k" by linarith
      then show "n < k" by simp
    qed
    with r show ?thesis by simp
  next
    case tie_odd
    then have r: "round_even q = n + 1" by (simp add: round_even_def n_def)
    have "n + 1 < k \<longleftrightarrow> q < of_int k - 1 / 2"
    proof
      assume "n + 1 < k"
      then have "of_int n + 2 \<le> (of_int k :: real)" by linarith
      with tie_odd(1) show "q < of_int k - 1 / 2" by linarith
    next
      assume "q < of_int k - 1 / 2"
      with tie_odd(1) have "(of_int (n + 1) :: real) < of_int k" by simp
      then show "n + 1 < k" by (simp only: of_int_less_iff)
    qed
    with r show ?thesis by simp
  qed
qed

lemma powr2_int: "(2::real) powr of_int k = 2 powi k"
  by (simp add: powr_real_of_int')

lemma powi2_less_imp: "(2::real) powi m < 2 powi n \<Longrightarrow> m < n"
proof (rule ccontr)
  assume lt: "(2::real) powi m < 2 powi n" and "\<not> m < n"
  then have "n \<le> m" by simp
  then have "(2::real) powi n \<le> 2 powi m"
    by (rule power_int_increasing) simp
  with lt show False by simp
qed

lemma floor_log2_bounds:
  assumes "0 < a"
  shows "2 powi \<lfloor>log 2 a\<rfloor> \<le> a" and "a < 2 powi (\<lfloor>log 2 a\<rfloor> + 1)"
proof -
  have "2 powr of_int \<lfloor>log 2 a\<rfloor> \<le> a \<and> a < 2 powr (of_int \<lfloor>log 2 a\<rfloor> + 1)"
    using floor_log_eq_powr_iff [of a 2 "\<lfloor>log 2 a\<rfloor>"] assms by simp
  moreover have "(2::real) powr (of_int \<lfloor>log 2 a\<rfloor> + 1) = 2 powr of_int (\<lfloor>log 2 a\<rfloor> + 1)"
    by simp
  ultimately show "2 powi \<lfloor>log 2 a\<rfloor> \<le> a" and "a < 2 powi (\<lfloor>log 2 a\<rfloor> + 1)"
    by (simp_all only: powr2_int)
qed

lemma floor_log2_less:
  assumes "0 < a" and "a < 2 powi (k + 1)"
  shows "\<lfloor>log 2 a\<rfloor> \<le> k"
proof -
  have "(2::real) powi \<lfloor>log 2 a\<rfloor> < 2 powi (k + 1)"
    using floor_log2_bounds(1) [OF assms(1)] assms(2) by linarith
  then have "\<lfloor>log 2 a\<rfloor> < k + 1"
    by (rule powi2_less_imp)
  then show ?thesis by simp
qed

lemma floor_log2_ge:
  assumes "0 < a" and "2 powi k \<le> a"
  shows "k \<le> \<lfloor>log 2 a\<rfloor>"
proof -
  have "(2::real) powi k < 2 powi (\<lfloor>log 2 a\<rfloor> + 1)"
    using floor_log2_bounds(2) [OF assms(1)] assms(2) by linarith
  then have "k < \<lfloor>log 2 a\<rfloor> + 1"
    by (rule powi2_less_imp)
  then show ?thesis by simp
qed

lemma floor_log2_eq:
  assumes "0 < a" and "2 powi k \<le> a" and "a < 2 powi (k + 1)"
  shows "\<lfloor>log 2 a\<rfloor> = k"
  using floor_log2_less [OF assms(1,3)] floor_log2_ge [OF assms(1,2)] by simp

lemma round_double_alt:
  "round_double x =
     (if x = 0 then Finite 0
      else if 2 powi 1024 \<le> rounded_magnitude x
        then (if 0 < x then PosInfinity else NegInfinity)
        else Finite (sgn x * rounded_magnitude x))"
  by (simp add: round_double_def rounded_magnitude_def Let_def)

lemma rounded_magnitude_nonneg: "0 \<le> rounded_magnitude x"
  unfolding rounded_magnitude_def
  by (intro mult_nonneg_nonneg) (simp_all add: round_even_nonneg)

lemma abs_scale:
  fixes m a u :: real
  assumes "0 < u"
  shows "\<bar>m - a / u\<bar> * u = \<bar>m * u - a\<bar>"
proof -
  have "\<bar>m - a / u\<bar> * u = \<bar>(m - a / u) * u\<bar>"
    using assms by (simp add: abs_mult)
  also have "(m - a / u) * u = m * u - a"
    using assms by (simp add: left_diff_distrib)
  finally show ?thesis .
qed

lemma rounded_magnitude_near:
  "\<bar>rounded_magnitude x - \<bar>x\<bar>\<bar> \<le> 2 powi last_place x / 2"
proof -
  let ?u = "(2::real) powi last_place x"
  have u: "0 < ?u" by simp
  have "\<bar>of_int (round_even (\<bar>x\<bar> / ?u)) - \<bar>x\<bar> / ?u\<bar> \<le> 1 / 2"
    by (rule round_even_near)
  then have "\<bar>of_int (round_even (\<bar>x\<bar> / ?u)) - \<bar>x\<bar> / ?u\<bar> * ?u \<le> 1 / 2 * ?u"
    using u by (intro mult_right_mono) simp_all
  moreover have "\<bar>of_int (round_even (\<bar>x\<bar> / ?u)) - \<bar>x\<bar> / ?u\<bar> * ?u =
      \<bar>rounded_magnitude x - \<bar>x\<bar>\<bar>"
    unfolding rounded_magnitude_def using u by (rule abs_scale)
  ultimately show ?thesis by simp
qed

lemma below_20_magnitude:
  "js_lt (js_abs (round_double d)) (Finite 20) \<longleftrightarrow> d = 0 \<or> rounded_magnitude d < 20"
proof (cases "d = 0")
  case True
  then show ?thesis by (simp add: round_double_alt)
next
  case False
  have big: "(20::real) < 2 powi 1024" by simp
  show ?thesis
  proof (cases "2 powi 1024 \<le> rounded_magnitude d")
    case True
    with False big show ?thesis by (simp add: round_double_alt)
  next
    case False
    with \<open>d \<noteq> 0\<close> rounded_magnitude_nonneg [of d] show ?thesis
      by (simp add: round_double_alt abs_mult)
  qed
qed


lemma rounded_below_20:
  assumes "d \<noteq> 0"
  shows "rounded_magnitude d < 20 \<longleftrightarrow> \<bar>d\<bar> < 20 - 1 / 2 ^ 49"
proof -
  define a where "a = \<bar>d\<bar>"
  have a: "0 < a" using assms by (simp add: a_def)
  define E where "E = \<lfloor>log 2 a\<rfloor>"
  have e: "last_place d = max (E - 52) (- 1074)"
    by (simp add: last_place_def E_def a_def)
  have near: "\<bar>rounded_magnitude d - a\<bar> \<le> 2 powi last_place d / 2"
    unfolding a_def by (rule rounded_magnitude_near)
  consider (small) "a < 16" | (mid) "16 \<le> a" "a < 32" | (large) "32 \<le> a"
    by linarith
  then show ?thesis
  proof cases
    case small
    then have "a < 2 powi (3 + 1)" by simp
    with a have "E \<le> 3" unfolding E_def by (rule floor_log2_less)
    then have "last_place d \<le> 0" by (simp add: e)
    then have "(2::real) powi last_place d \<le> 2 powi 0"
      by (rule power_int_increasing) simp
    then have "(2::real) powi last_place d \<le> 1" by simp
    with near small have "rounded_magnitude d < 20" by linarith
    moreover have "a < 20 - 1 / 2 ^ 49" using small by simp
    ultimately show ?thesis by (simp add: a_def)
  next
    case large
    then have "2 powi 5 \<le> a" by simp
    with a have E5: "5 \<le> E" unfolding E_def by (rule floor_log2_ge)
    then have le: "last_place d = E - 52" by (simp add: e)
    have "(2::real) powi (E - 52) = 2 powi E * 2 powi (- 52)"
      by (simp add: power_int_diff power_int_minus field_simps)
    moreover have "2 powi E \<le> a"
      unfolding E_def using a by (rule floor_log2_bounds(1))
    ultimately have "(2::real) powi last_place d \<le> a * 2 powi (- 52)"
      by (simp add: le)
    then have "(2::real) powi last_place d \<le> a / 2 ^ 52"
      by (simp add: power_int_minus field_simps)
    moreover have "a / 2 ^ 52 \<le> a / 2"
      using a by (intro divide_left_mono) simp_all
    ultimately have "(2::real) powi last_place d \<le> a / 2" by linarith
    with near large have "\<not> rounded_magnitude d < 20" by linarith
    moreover have "\<not> a < 20 - 1 / 2 ^ 49" using large by simp
    ultimately show ?thesis by (simp add: a_def)
  next
    case mid
    have "2 powi 4 \<le> a" "a < 2 powi (4 + 1)" using mid by simp_all
    with a have "E = 4" unfolding E_def by (intro floor_log2_eq)
    then have le: "last_place d = - 48" by (simp add: e)
    have u: "(2::real) powi (- 48) = 1 / 2 ^ 48"
      by (simp add: power_int_minus field_simps)
    have r: "rounded_magnitude d = of_int (round_even (a * 2 ^ 48)) / 2 ^ 48"
      by (simp add: rounded_magnitude_def le u a_def)
    have "rounded_magnitude d < 20 \<longleftrightarrow>
        (of_int (round_even (a * 2 ^ 48)) :: real) < of_int (20 * 2 ^ 48)"
      by (simp add: r field_simps)
    also have "\<dots> \<longleftrightarrow> round_even (a * 2 ^ 48) < 20 * 2 ^ 48"
      by (simp only: of_int_less_iff)
    also have "\<dots> \<longleftrightarrow> a * 2 ^ 48 < of_int (20 * 2 ^ 48) - 1 / 2"
      by (rule round_even_less_even) simp
    also have "\<dots> \<longleftrightarrow> a < 20 - 1 / 2 ^ 49"
      by (simp add: field_simps)
    finally show ?thesis by (simp add: a_def)
  qed
qed

lemma below_20:
  "js_lt (js_abs (round_double d)) (Finite 20) \<longleftrightarrow> \<bar>d\<bar> < 20 - 1 / 2 ^ 49"
proof (cases "d = 0")
  case True
  then show ?thesis by (simp add: below_20_magnitude)
next
  case False
  then show ?thesis by (simp add: below_20_magnitude rounded_below_20)
qed

text \<open>The rounding on some values whose doubles are known.\<close>

lemma last_place_in_binade:
  assumes "x \<noteq> 0" and "2 powi k \<le> \<bar>x\<bar>" and "\<bar>x\<bar> < 2 powi (k + 1)"
  shows "last_place x = max (k - 52) (- 1074)"
  using floor_log2_eq [of "\<bar>x\<bar>" k] assms by (simp add: last_place_def)

lemma round_double_tie_down: "round_double (2 ^ 53 + 1) = Finite (2 ^ 53)"
proof -
  have "last_place (2 ^ 53 + 1) = 1"
    using last_place_in_binade [of "2 ^ 53 + 1" 53] by simp
  then show ?thesis
    by (simp add: round_double_def round_even_def Let_def)
qed

lemma round_double_tie_up: "round_double (2 ^ 53 + 3) = Finite (2 ^ 53 + 4)"
proof -
  have "last_place (2 ^ 53 + 3) = 1"
    using last_place_in_binade [of "2 ^ 53 + 3" 53] by simp
  then show ?thesis
    by (simp add: round_double_def round_even_def Let_def)
qed

lemma round_double_tenth:
  "round_double (1 / 10) = Finite (3602879701896397 / 36028797018963968)"
proof -
  have "last_place (1 / 10) = - 56"
    using last_place_in_binade [of "1 / 10" "- 4"] by (simp add: power_int_minus)
  then show ?thesis
    by (simp add: round_double_def round_even_def Let_def power_int_minus)
qed

lemma round_double_near_twenty: "round_double (20 - 1 / 2 ^ 60) = Finite 20"
proof -
  have "last_place (20 - 1 / 2 ^ 60) = - 48"
    using last_place_in_binade [of "20 - 1 / 2 ^ 60" 4] by simp
  then show ?thesis
    by (simp add: round_double_def round_even_def Let_def power_int_minus)
qed

lemma round_double_overflow: "round_double (- (2 ^ 1024)) = NegInfinity"
proof -
  have "last_place (- (2 ^ 1024)) = 972"
    using last_place_in_binade [of "- (2 ^ 1024)" 1024] by simp
  then show ?thesis
    by (simp add: round_double_def round_even_def Let_def)
qed

lemma round_double_subnormal: "round_double (3 / 2 ^ 1075) = Finite (2 / 2 ^ 1074)"
proof -
  have "last_place (3 / 2 ^ 1075) = - 1074"
    using last_place_in_binade [of "3 / 2 ^ 1075" "- 1074"]
    by (simp add: power_int_minus field_simps)
  then show ?thesis
    by (simp add: round_double_def round_even_def Let_def power_int_minus)
qed

lemma not_finite_not_below:
  "\<not> is_Finite u \<or> \<not> is_Finite v \<Longrightarrow> \<not> js_lt (js_abs (js_sub u v)) w"
  by (cases u; cases v) simp_all

section \<open>Properties of the alignment verdict\<close>

lemma findKeypoint_None: "findKeypoint pose n = None \<longleftrightarrow> \<not> present pose n"
  by (auto simp: findKeypoint_def present_def named_def find_None_iff)

lemma findKeypoint_Some_present: "findKeypoint pose n = Some kp \<Longrightarrow> present pose n"
  using findKeypoint_None [of pose n] by auto

lemma present_findKeypoint: "present pose n \<Longrightarrow> \<exists>kp. findKeypoint pose n = Some kp"
  using findKeypoint_None [of pose n] by (cases "findKeypoint pose n") auto

lemma findKeypoint_name: "findKeypoint pose n = Some kp \<Longrightarrow> kp_name kp = Some n"
  by (auto simp: findKeypoint_def named_def find_Some_iff)

lemma findKeypoint_mem: "findKeypoint pose n = Some kp \<Longrightarrow> kp \<in> set (keypoints pose)"
  by (auto simp: findKeypoint_def find_Some_iff)

lemma verdict_char:
  "isPerfectAngle pose \<longleftrightarrow>
      present pose ''left_shoulder'' \<and> present pose ''right_shoulder'' \<and>
      present pose ''left_hip'' \<and> present pose ''right_hip'' \<and>
      js_lt (js_abs (js_sub (y_of pose ''left_shoulder'') (y_of pose ''right_shoulder'')))
        (Finite 20) \<and>
      js_lt (js_abs (js_sub (y_of pose ''left_hip'') (y_of pose ''right_hip''))) (Finite 20)"
  unfolding isPerfectAngle_def y_of_def Let_def
  by (cases "findKeypoint pose ''left_shoulder''";
      cases "findKeypoint pose ''right_shoulder''";
      cases "findKeypoint pose ''left_hip''";
      cases "findKeypoint pose ''right_hip''")
     (auto simp: findKeypoint_None [symmetric] dest: findKeypoint_Some_present)

text \<open>The verdict of a pose with finite coordinates, in terms of its own lookups.\<close>

lemma findKeypoint_js_pose:
  "findKeypoint (js_pose pose) n = map_option js_keypoint (findKeypoint pose n)"
proof -
  have "find (named n) (map js_keypoint kps) = map_option js_keypoint (find (named n) kps)"
    for kps :: "real Keypoint list"
    by (induction kps) (simp_all add: named_def js_keypoint_def)
  then show ?thesis by (simp add: findKeypoint_def js_pose_def)
qed

lemma present_js_pose: "present (js_pose pose) n = present pose n"
  by (simp add: present_def js_pose_def js_keypoint_def)

lemma y_of_js_pose:
  "findKeypoint pose n = Some kp \<Longrightarrow> y_of (js_pose pose) n = Finite (kp_y kp)"
  by (simp add: y_of_def findKeypoint_js_pose js_keypoint_def)

lemma verdict_js_pose:
  "isPerfectAngle (js_pose pose) =
     (case (findKeypoint pose ''left_shoulder'', findKeypoint pose ''right_shoulder'',
            findKeypoint pose ''left_hip'', findKeypoint pose ''right_hip'') of
        (Some ls, Some rs, Some lh, Some rh) \<Rightarrow>
          \<bar>kp_y ls - kp_y rs\<bar> < 20 - 1 / 2 ^ 49 \<and> \<bar>kp_y lh - kp_y rh\<bar> < 20 - 1 / 2 ^ 49
      | _ \<Rightarrow> False)"
  unfolding isPerfectAngle_def Let_def findKeypoint_js_pose
  by (cases "findKeypoint pose ''left_shoulder''";
      cases "findKeypoint pose ''right_shoulder''";
      cases "findKeypoint pose ''left_hip''";
      cases "findKeypoint pose ''right_hip''")
     (simp_all add: js_keypoint_def below_20)

lemma scenario1_aligned: "isPerfectAngle (js_pose scenario1)"
  by (simp add: verdict_js_pose findKeypoint_def named_def scenario1_def mk_def)

text \<open>
  C1, as the code has it. The verdict of a pose is true exactly when the four names
  left_shoulder, right_shoulder, left_hip and right_hip are all present among its
  keypoints and the absolute difference of the two shoulders' y-coordinates, computed
  as the code computes it in double arithmetic, is strictly less than 20, and so is
  that of the two hips (the keypoint read for a name being the first one so named).
  When any one of the four names is absent the verdict is false, whatever the other
  three are. For finite coordinates \<open>a\<close> and \<open>b\<close> the computed difference is below 20
  exactly when the exact one is below \<open>20 - 2 ^ - 49\<close>; when a coordinate is NaN or
  infinite the computed difference is not below 20.
\<close>

theorem isPerfectAngle_iff_computed:
  "(isPerfectAngle pose \<longleftrightarrow>
      present pose ''left_shoulder'' \<and> present pose ''right_shoulder'' \<and>
      present pose ''left_hip'' \<and> present pose ''right_hip'' \<and>
      js_lt (js_abs (js_sub (y_of pose ''left_shoulder'') (y_of pose ''right_shoulder'')))
        (Finite 20) \<and>
      js_lt (js_abs (js_sub (y_of pose ''left_hip'') (y_of pose ''right_hip''))) (Finite 20))
   \<and> (\<forall>n \<in> {''left_shoulder'', ''right_shoulder'', ''left_hip'', ''right_hip''}.
        \<not> present pose n \<longrightarrow> \<not> isPerfectAngle pose)
   \<and> (js_lt (js_abs (js_sub (Finite a) (Finite b))) (Finite 20) \<longleftrightarrow>
        \<bar>a - b\<bar> < 20 - 1 / 2 ^ 49)
   \<and> (\<not> is_Finite u \<or> \<not> is_Finite v \<longrightarrow> \<not> js_lt (js_abs (js_sub u v)) (Finite 20))"
proof -
  have fin: "js_lt (js_abs (js_sub (Finite a) (Finite b))) (Finite 20) \<longleftrightarrow>
        \<bar>a - b\<bar> < 20 - 1 / 2 ^ 49"
    by (simp add: below_20)
  show ?thesis
    using verdict_char [of pose] fin not_finite_not_below [of u v "Finite 20"] by blast
qed

theorem isPerfectAngle_iff_computed_witness:
  "isPerfectAngle (js_pose scenario1)
   \<and> js_lt (js_abs (js_sub (Finite 100) (Finite 105))) (Finite 20)
   \<and> \<not> js_lt (js_abs (js_sub (Finite 100) (Finite 120))) (Finite 20)
   \<and> \<not> js_lt (js_abs (js_sub NaN (Finite 105))) (Finite 20)
   \<and> \<not> present \<lparr>keypoints = [mk ''left_shoulder'' (Finite 10) (Finite 100) 0.9,
       mk ''right_shoulder'' (Finite 50) (Finite 105) 0.9,
       mk ''right_hip'' (Finite 48) (Finite 215) 0.9]\<rparr> ''left_hip''
   \<and> \<not> isPerfectAngle \<lparr>keypoints = [mk ''left_shoulder'' (Finite 10) (Finite 100) 0.9,
       mk ''right_shoulder'' (Finite 50) (Finite 105) 0.9,
       mk ''right_hip'' (Finite 48) (Finite 215) 0.9]\<rparr>"
proof -
  let ?p3 = "\<lparr>keypoints = [mk ''left_shoulder'' (Finite 10) (Finite 100) 0.9,
       mk ''right_shoulder'' (Finite 50) (Finite 105) 0.9,
       mk ''right_hip'' (Finite 48) (Finite 215) 0.9]\<rparr>"
  have pres: "present (js_pose scenario1) ''left_shoulder''"
      "present (js_pose scenario1) ''right_shoulder''"
      "present (js_pose scenario1) ''left_hip''" "present (js_pose scenario1) ''right_hip''"
    unfolding present_js_pose by (simp_all add: present_def scenario1_def mk_def)
  have ys: "y_of (js_pose scenario1) ''left_shoulder'' = Finite 100"
      "y_of (js_pose scenario1) ''right_shoulder'' = Finite 105"
      "y_of (js_pose scenario1) ''left_hip'' = Finite 200"
      "y_of (js_pose scenario1) ''right_hip'' = Finite 215"
    by (simp_all add: y_of_def findKeypoint_def named_def js_pose_def js_keypoint_def
        scenario1_def mk_def)
  have absent: "\<not> present ?p3 ''left_hip''"
    by (simp add: present_def mk_def)
  have sh: "js_lt (js_abs (js_sub (Finite 100) (Finite 105))) (Finite 20)"
    using isPerfectAngle_iff_computed [of "js_pose scenario1" 100 105 NaN "Finite 105"]
    by simp
  have hp: "js_lt (js_abs (js_sub (Finite 200) (Finite 215))) (Finite 20)"
    using isPerfectAngle_iff_computed [of "js_pose scenario1" 200 215 NaN "Finite 105"]
    by simp
  have far: "\<not> js_lt (js_abs (js_sub (Finite 100) (Finite 120))) (Finite 20)"
    using isPerfectAngle_iff_computed [of "js_pose scenario1" 100 120 NaN "Finite 105"]
    by simp
  have nan: "\<not> js_lt (js_abs (js_sub NaN (Finite 105))) (Finite 20)"
    using isPerfectAngle_iff_computed [of "js_pose scenario1" 100 105 NaN "Finite 105"]
    by simp
  have v: "isPerfectAngle (js_pose scenario1)"
    using isPerfectAngle_iff_computed [of "js_pose scenario1" 100 105 NaN "Finite 105"]
      pres ys sh hp
    by simp
  have "\<not> isPerfectAngle ?p3"
    using isPerfectAngle_iff_computed [of ?p3 100 105 NaN "Finite 105"] absent by blast
  with v sh far nan absent show ?thesis by blast
qed

text \<open>
  The sentence of C1 read with exact differences fails: in the pose below all four
  names are present, the shoulders at 20 and \<open>2 ^ - 60\<close> differ by less than 20 and so
  do the hips at 200 and 215, but the code computes the shoulder difference as the
  double 20 and the verdict is false.
\<close>

theorem exact_difference_counterexample:
  "present (js_pose near_twenty) ''left_shoulder''
   \<and> present (js_pose near_twenty) ''right_shoulder''
   \<and> present (js_pose near_twenty) ''left_hip''
   \<and> present (js_pose near_twenty) ''right_hip''
   \<and> y_of (js_pose near_twenty) ''left_shoulder'' = Finite 20
   \<and> y_of (js_pose near_twenty) ''right_shoulder'' = Finite (1 / 2 ^ 60)
   \<and> y_of (js_pose near_twenty) ''left_hip'' = Finite 200
   \<and> y_of (js_pose near_twenty) ''right_hip'' = Finite 215
   \<and> \<bar>20 - 1 / 2 ^ 60\<bar> < (20::real)
   \<and> \<bar>200 - 215\<bar> < (20::real)
   \<and> js_sub (Finite 20) (Finite (1 / 2 ^ 60)) = Finite 20
   \<and> \<not> isPerfectAngle (js_pose near_twenty)"
proof -
  have pres: "present (js_pose near_twenty) ''left_shoulder''"
      "present (js_pose near_twenty) ''right_shoulder''"
      "present (js_pose near_twenty) ''left_hip''" "present (js_pose near_twenty) ''right_hip''"
    unfolding present_js_pose by (simp_all add: present_def near_twenty_def mk_def)
  have ys: "y_of (js_pose near_twenty) ''left_shoulder'' = Finite 20"
      "y_of (js_pose near_twenty) ''right_shoulder'' = Finite (1 / 2 ^ 60)"
      "y_of (js_pose near_twenty) ''left_hip'' = Finite 200"
      "y_of (js_pose near_twenty) ''right_hip'' = Finite 215"
    by (simp_all add: y_of_def findKeypoint_def named_def js_pose_def js_keypoint_def
        near_twenty_def mk_def)
  have exact: "\<bar>20 - 1 / 2 ^ 60\<bar> < (20::real)" "\<bar>200 - 215\<bar> < (20::real)"
    by simp_all
  have sub: "js_sub (Finite 20) (Finite (1 / 2 ^ 60)) = Finite 20"
    by (simp only: js_sub.simps round_double_near_twenty)
  have "\<not> isPerfectAngle (js_pose near_twenty)"
    by (simp add: verdict_js_pose findKeypoint_def named_def near_twenty_def mk_def)
  with pres ys exact sub show ?thesis by simp
qed

section \<open>Properties of the rendering\<close>

lemmas canvas_defs = save_def restore_def scale_def translate_def beginPath_def
  add_segment_def moveTo_def lineTo_def arc_def set_fillStyle_def set_strokeStyle_def
  set_lineWidth_def fill_def stroke_def clearRect_def

lemma drawKeypoint_frame:
  "transform (ds (drawKeypoint color kp c)) = transform (ds c)"
  "saved (drawKeypoint color kp c) = saved c"
  "width (drawKeypoint color kp c) = width c"
  "height (drawKeypoint color kp c) = height c"
  by (simp_all add: drawKeypoint_def canvas_defs)

lemma drawKeypoint_bitmap:
  "bitmap (drawKeypoint color kp c) =
     bitmap c @ (if confident kp then [dot (transform (ds c)) color kp] else [])"
  by (simp add: drawKeypoint_def dot_def canvas_defs)

lemma fold_drawKeypoint_frame:
  "transform (ds (fold (drawKeypoint color) kps c)) = transform (ds c)"
  "saved (fold (drawKeypoint color) kps c) = saved c"
  "width (fold (drawKeypoint color) kps c) = width c"
  "height (fold (drawKeypoint color) kps c) = height c"
  by (induction kps arbitrary: c) (simp_all add: drawKeypoint_frame)

lemma fold_drawKeypoint_bitmap:
  "bitmap (fold (drawKeypoint color) kps c) =
     bitmap c @ map (dot (transform (ds c)) color) (filter confident kps)"
  by (induction kps arbitrary: c) (simp_all add: drawKeypoint_bitmap drawKeypoint_frame)

lemma drawLine_frame:
  "transform (ds (drawLine f t color c)) = transform (ds c)"
  "saved (drawLine f t color c) = saved c"
  "width (drawLine f t color c) = width c"
  "height (drawLine f t color c) = height c"
  by (simp_all add: drawLine_def canvas_defs)

lemma drawLine_bitmap:
  "bitmap (drawLine f t color c) = bitmap c @ [line (transform (ds c)) color (f, t)]"
  by (simp add: drawLine_def line_def canvas_defs)

lemma drawPair_frame:
  "transform (ds (drawPair pose color pair c)) = transform (ds c)"
  "saved (drawPair pose color pair c) = saved c"
  "width (drawPair pose color pair c) = width c"
  "height (drawPair pose color pair c) = height c"
  by (simp_all add: drawPair_def drawLine_frame split: option.splits)

lemma drawPair_bitmap:
  "bitmap (drawPair pose color pair c) =
     bitmap c @ (case edgeEndpoints pose pair of None \<Rightarrow> []
                 | Some ends \<Rightarrow> [line (transform (ds c)) color ends])"
  by (simp add: drawPair_def drawLine_bitmap split: option.splits)

lemma fold_drawPair_frame:
  "transform (ds (fold (drawPair pose color) pairs c)) = transform (ds c)"
  "saved (fold (drawPair pose color) pairs c) = saved c"
  "width (fold (drawPair pose color) pairs c) = width c"
  "height (fold (drawPair pose color) pairs c) = height c"
  by (induction pairs arbitrary: c) (simp_all add: drawPair_frame)

lemma fold_drawPair_bitmap:
  "bitmap (fold (drawPair pose color) pairs c) =
     bitmap c @ map (line (transform (ds c)) color) (List.map_filter (edgeEndpoints pose) pairs)"
  by (induction pairs arbitrary: c)
     (simp_all add: drawPair_bitmap drawPair_frame List.map_filter_simps split: option.splits)

lemma drawPose_frame:
  "transform (ds (drawPose pose c)) = transform (ds c)"
  "saved (drawPose pose c) = saved c"
  "width (drawPose pose c) = width c"
  "height (drawPose pose c) = height c"
  by (simp_all add: drawPose_def Let_def fold_drawPair_frame fold_drawKeypoint_frame)

lemma drawPose_bitmap:
  "bitmap (drawPose pose c) =
     bitmap c @ dots (transform (ds c)) pose @ lines (transform (ds c)) pose"
  by (simp add: drawPose_def Let_def dots_def lines_def fold_drawPair_bitmap
      fold_drawKeypoint_bitmap fold_drawKeypoint_frame)

lemma fold_drawPose_frame:
  "transform (ds (fold drawPose poses c)) = transform (ds c)"
  "saved (fold drawPose poses c) = saved c"
  "width (fold drawPose poses c) = width c"
  "height (fold drawPose poses c) = height c"
  by (induction poses arbitrary: c) (simp_all add: drawPose_frame)

lemma fold_drawPose_bitmap:
  "bitmap (fold drawPose poses c) =
     bitmap c @ concat (map (\<lambda>pose. dots (transform (ds c)) pose @ lines (transform (ds c)) pose) poses)"
  by (induction poses arbitrary: c) (simp_all add: drawPose_bitmap drawPose_frame)

lemma mirror_transform:
  "transform (ds (translate (- real (width (scale (- 1) 1 (save (set_height h (set_width w c))))))
      0 (scale (- 1) 1 (save (set_height h (set_width w c)))))) = mirror w"
  by (simp add: canvas_defs set_width_def set_height_def default_state_def identity_def
      scale_matrix_def translate_matrix_def mirror_def)

text \<open>A tick that finds the video ready and whose estimator resolves.\<close>

lemma detectPose_drawn:
  assumes "readyState (video_of fr) = 4" and "estimatePoses fr = Inr poses"
  shows "bitmap (canvas_after (detectPose fr c)) =
           Cleared (mirror (videoWidth (video_of fr))) 0 0
             (real (videoWidth (video_of fr))) (real (videoHeight (video_of fr)))
           # concat (map (\<lambda>pose. dots (mirror (videoWidth (video_of fr))) pose
                                @ lines (mirror (videoWidth (video_of fr))) pose) poses)"
    and "ds (canvas_after (detectPose fr c)) = default_state"
    and "saved (canvas_after (detectPose fr c)) = []"
    and "scheduled (detectPose fr c)"
    and "rejected (detectPose fr c) = None"
proof -
  let ?w = "videoWidth (video_of fr)" and ?h = "videoHeight (video_of fr)"
  let ?c3 = "save (set_height ?h (set_width ?w c))"
  let ?c5 = "translate (- real (width (scale (- 1) 1 ?c3))) 0 (scale (- 1) 1 ?c3)"
  let ?c6 = "clearRect 0 0 (real (width ?c5)) (real (height ?c5)) ?c5"
  have res: "detectPose fr c =
      \<lparr>canvas_after = restore (fold drawPose poses ?c6), scheduled = True, rejected = None\<rparr>"
    using assms by (simp add: detectPose_def Let_def)
  have t5: "transform (ds ?c5) = mirror ?w" by (rule mirror_transform)
  have wh: "width ?c5 = ?w" "height ?c5 = ?h"
    by (simp_all add: canvas_defs set_width_def set_height_def)
  have s6: "saved ?c6 = [default_state]" "bitmap ?c6 = [Cleared (mirror ?w) 0 0 (real ?w) (real ?h)]"
      "transform (ds ?c6) = mirror ?w"
    using t5 by (simp_all add: canvas_defs set_width_def set_height_def)
  have s7: "saved (fold drawPose poses ?c6) = [default_state]"
    by (simp only: fold_drawPose_frame s6)
  have b7: "bitmap (fold drawPose poses ?c6) =
      Cleared (mirror ?w) 0 0 (real ?w) (real ?h)
      # concat (map (\<lambda>pose. dots (mirror ?w) pose @ lines (mirror ?w) pose) poses)"
    by (simp only: fold_drawPose_bitmap s6 append_Cons append_Nil)
  show "bitmap (canvas_after (detectPose fr c)) =
           Cleared (mirror ?w) 0 0 (real ?w) (real ?h)
           # concat (map (\<lambda>pose. dots (mirror ?w) pose @ lines (mirror ?w) pose) poses)"
    using b7 s7 by (simp add: res restore_def)
  show "ds (canvas_after (detectPose fr c)) = default_state"
    using s7 by (simp add: res restore_def)
  show "saved (canvas_after (detectPose fr c)) = []"
    using s7 by (simp add: res restore_def)
  show "scheduled (detectPose fr c)" by (simp add: res)
  show "rejected (detectPose fr c) = None" by (simp add: res)
qed

lemma detectPose_not_ready:
  "readyState (video_of fr) \<noteq> 4 \<Longrightarrow>
     detectPose fr c = \<lparr>canvas_after = c, scheduled = False, rejected = None\<rparr>"
  by (simp add: detectPose_def)

lemma detectPose_rejected:
  "readyState (video_of fr) = 4 \<Longrightarrow> estimatePoses fr = Inl e \<Longrightarrow>
     \<not> scheduled (detectPose fr c) \<and> rejected (detectPose fr c) = Some e"
  by (simp add: detectPose_def Let_def)


lemma confident_iff: "confident kp \<longleftrightarrow> (\<exists>s. kp_score kp = Some s \<and> 0.5 < s)"
  by (simp add: confident_def split: option.splits)

lemma findKeypoint_withScores:
  "findKeypoint (withScores g pose) n =
     map_option (\<lambda>kp. kp\<lparr>kp_score := g kp\<rparr>) (findKeypoint pose n)"
proof -
  have "find (named n) (map (\<lambda>kp. kp\<lparr>kp_score := g kp\<rparr>) kps) =
        map_option (\<lambda>kp. kp\<lparr>kp_score := g kp\<rparr>) (find (named n) kps)" for kps
    by (induction kps) (simp_all add: named_def)
  then show ?thesis by (simp add: findKeypoint_def withScores_def)
qed

lemma isPerfectAngle_withScores: "isPerfectAngle (withScores g pose) = isPerfectAngle pose"
  unfolding isPerfectAngle_def Let_def findKeypoint_withScores
  by (cases "findKeypoint pose ''left_shoulder''";
      cases "findKeypoint pose ''right_shoulder''";
      cases "findKeypoint pose ''left_hip''";
      cases "findKeypoint pose ''right_hip''") simp_all

lemma verdict_js_withScores:
  "isPerfectAngle (js_pose (withScores g pose)) = isPerfectAngle (js_pose pose)"
  unfolding verdict_js_pose findKeypoint_withScores
  by (cases "findKeypoint pose ''left_shoulder''";
      cases "findKeypoint pose ''right_shoulder''";
      cases "findKeypoint pose ''left_hip''";
      cases "findKeypoint pose ''right_hip''") simp_all

lemma poseColor_withScores: "poseColor (withScores g pose) = poseColor pose"
  by (simp add: poseColor_def verdict_js_withScores)

lemma js_pose_removeNamed: "js_pose (removeNamed n pose) = removeNamed n (js_pose pose)"
  by (simp add: js_pose_def removeNamed_def filter_map comp_def js_keypoint_def)

lemma findKeypoint_removeNamed:
  fixes pose :: "'n Pose"
  shows "findKeypoint (removeNamed n pose) a = (if a = n then None else findKeypoint pose a)"
proof -
  have other: "a \<noteq> n \<Longrightarrow> find (named a) (filter (\<lambda>kp. kp_name kp \<noteq> Some n) kps) =
        find (named a) kps" for kps :: "'n Keypoint list"
    by (induction kps) (simp_all add: named_def)
  have same: "find (named n) (filter (\<lambda>kp. kp_name kp \<noteq> Some n) kps) = None"
    for kps :: "'n Keypoint list"
    by (simp add: find_None_iff named_def)
  show ?thesis using other same by (simp add: findKeypoint_def removeNamed_def)
qed

lemma verdict_removeNamed:
  "n \<in> {''left_shoulder'', ''right_shoulder'', ''left_hip'', ''right_hip''} \<Longrightarrow>
   \<not> isPerfectAngle (removeNamed n pose)"
proof -
  assume n: "n \<in> {''left_shoulder'', ''right_shoulder'', ''left_hip'', ''right_hip''}"
  have "findKeypoint (removeNamed n pose) n = None"
    by (simp add: findKeypoint_removeNamed)
  with n show ?thesis
    unfolding isPerfectAngle_def Let_def
    by (auto split: option.splits)
qed

lemma verdict_removeNamed_other:
  "n \<notin> {''left_shoulder'', ''right_shoulder'', ''left_hip'', ''right_hip''} \<Longrightarrow>
   isPerfectAngle (removeNamed n pose) = isPerfectAngle pose"
proof -
  assume "n \<notin> {''left_shoulder'', ''right_shoulder'', ''left_hip'', ''right_hip''}"
  then have "findKeypoint (removeNamed n pose) ''left_shoulder'' = findKeypoint pose ''left_shoulder''"
    "findKeypoint (removeNamed n pose) ''right_shoulder'' = findKeypoint pose ''right_shoulder''"
    "findKeypoint (removeNamed n pose) ''left_hip'' = findKeypoint pose ''left_hip''"
    "findKeypoint (removeNamed n pose) ''right_hip'' = findKeypoint pose ''right_hip''"
    unfolding findKeypoint_removeNamed by auto
  then show ?thesis
    unfolding isPerfectAngle_def by (simp only:)
qed

lemma poseColor_removeNamed:
  "poseColor (removeNamed n pose) =
     (if n \<in> {''left_shoulder'', ''right_shoulder'', ''left_hip'', ''right_hip''}
      then ''red'' else poseColor pose)"
proof (cases "n \<in> {''left_shoulder'', ''right_shoulder'', ''left_hip'', ''right_hip''}")
  case True
  then have "\<not> isPerfectAngle (removeNamed n (js_pose pose))"
    by (rule verdict_removeNamed)
  then have "poseColor (removeNamed n pose) = ''red''"
    by (simp add: poseColor_def js_pose_removeNamed)
  with True show ?thesis by (simp only: if_True)
next
  case False
  then have "isPerfectAngle (removeNamed n (js_pose pose)) = isPerfectAngle (js_pose pose)"
    by (rule verdict_removeNamed_other)
  then have "poseColor (removeNamed n pose) = poseColor pose"
    by (simp add: poseColor_def js_pose_removeNamed)
  with False show ?thesis by (simp only: if_False)
qed

lemma edgeEndpoints_lowerScore_other:
  "a \<noteq> n \<Longrightarrow> b \<noteq> n \<Longrightarrow> edgeEndpoints (lowerScore n s pose) (a, b) = edgeEndpoints pose (a, b)"
proof -
  assume ab: "a \<noteq> n" "b \<noteq> n"
  have keep: "findKeypoint pose m = Some kp \<Longrightarrow> m \<noteq> n \<Longrightarrow>
      (kp\<lparr>kp_score := if kp_name kp = Some n then Some s else kp_score kp\<rparr>) = kp" for m kp
    by (auto dest: findKeypoint_name)
  show ?thesis
    unfolding edgeEndpoints_def lowerScore_def findKeypoint_withScores
    using ab keep [of a] keep [of b]
    by (cases "findKeypoint pose a"; cases "findKeypoint pose b") simp_all
qed

lemma edgeEndpoints_lowerScore_at:
  "s \<le> 0.5 \<Longrightarrow> a = n \<or> b = n \<Longrightarrow> edgeEndpoints (lowerScore n s pose) (a, b) = None"
proof -
  assume s: "s \<le> 0.5" and ab: "a = n \<or> b = n"
  have low: "findKeypoint pose n = Some kp \<Longrightarrow>
      \<not> confident (kp\<lparr>kp_score := if kp_name kp = Some n then Some s else kp_score kp\<rparr>)" for kp
    using s by (auto simp: confident_def dest: findKeypoint_name)
  show ?thesis
    unfolding edgeEndpoints_def lowerScore_def findKeypoint_withScores
    using ab low
    by (cases "findKeypoint pose a"; cases "findKeypoint pose b") auto
qed

lemma edgeEndpoints_removeNamed:
  "edgeEndpoints (removeNamed n pose) (a, b) =
     (if a = n \<or> b = n then None else edgeEndpoints pose (a, b))"
  by (simp add: edgeEndpoints_def findKeypoint_removeNamed split: option.splits)

lemma confident_lowerScore:
  "s \<le> 0.5 \<Longrightarrow>
   filter confident (keypoints (lowerScore n s pose)) =
     filter (\<lambda>kp. confident kp \<and> kp_name kp \<noteq> Some n) (keypoints pose)"
proof -
  assume s: "s \<le> 0.5"
  have "filter confident
          (map (\<lambda>kp. kp\<lparr>kp_score := if kp_name kp = Some n then Some s else kp_score kp\<rparr>) kps) =
        filter (\<lambda>kp. confident kp \<and> kp_name kp \<noteq> Some n) kps" for kps
    using s by (induction kps) (auto simp: confident_def)
  then show ?thesis by (simp add: lowerScore_def withScores_def)
qed

lemma confident_removeNamed:
  "filter confident (keypoints (removeNamed n pose)) =
     filter (\<lambda>kp. confident kp \<and> kp_name kp \<noteq> Some n) (keypoints pose)"
  by (auto simp: removeNamed_def intro: filter_cong)

lemma filled_dots: "filter is_Filled (dots m pose) = dots m pose"
  by (simp add: dots_def dot_def filter_map comp_def)

lemma filled_lines: "filter is_Filled (lines m pose) = []"
  by (simp add: lines_def line_def filter_map comp_def)

lemma stroked_dots: "filter is_Stroked (dots m pose) = []"
  by (simp add: dots_def dot_def filter_map comp_def)

lemma stroked_lines: "filter is_Stroked (lines m pose) = lines m pose"
  by (simp add: lines_def line_def filter_map comp_def)

lemma filled_concat:
  "filter is_Filled (concat (map (\<lambda>pose. dots m pose @ lines m pose) poses)) =
     concat (map (dots m) poses)"
  by (induction poses) (simp_all add: filled_dots filled_lines)

lemma stroked_concat:
  "filter is_Stroked (concat (map (\<lambda>pose. dots m pose @ lines m pose) poses)) =
     concat (map (lines m) poses)"
  by (induction poses) (simp_all add: stroked_dots stroked_lines)

section \<open>Dots, edges and the confidence threshold\<close>

text \<open>
  C2. In a pose that a tick renders, a keypoint is painted as a filled circle of radius
  5 in the colour of the pose exactly when its score is defined and strictly greater
  than 0.5: the filled shapes a pose adds to the bitmap are the circles of its
  keypoints above the threshold, in order, and those a drawing tick leaves are the
  circles of all its poses under the mirror transform. A keypoint whose score is
  exactly 0.5 leaves the canvas as it was, and a keypoint below the threshold is still
  a member of the pose and still found by the lookups by name.
\<close>

theorem keypoint_drawn_iff_confident:
  "(confident kp \<longleftrightarrow> (\<exists>s. kp_score kp = Some s \<and> 0.5 < s))
   \<and> bitmap (drawKeypoint color kp c) =
       bitmap c @ (if confident kp then [dot (transform (ds c)) color kp] else [])
   \<and> (kp_score kp = Some 0.5 \<longrightarrow> drawKeypoint color kp c = c)
   \<and> filter is_Filled (bitmap (drawPose pose c)) =
       filter is_Filled (bitmap c) @
       map (dot (transform (ds c)) (poseColor pose)) (filter confident (keypoints pose))
   \<and> (readyState (video_of fr) = 4 \<and> estimatePoses fr = Inr poses \<longrightarrow>
        filter is_Filled (bitmap (canvas_after (detectPose fr c))) =
          concat (map (\<lambda>p. map (dot (mirror (videoWidth (video_of fr))) (poseColor p))
                             (filter confident (keypoints p))) poses))
   \<and> (\<forall>k \<in> set (keypoints pose). \<not> confident k \<longrightarrow>
         (\<forall>n. kp_name k = Some n \<longrightarrow> findKeypoint pose n \<noteq> None))"
proof -
  have boundary: "kp_score kp = Some 0.5 \<longrightarrow> drawKeypoint color kp c = c"
    by (simp add: drawKeypoint_def confident_def)
  have pose_dots: "filter is_Filled (bitmap (drawPose pose c)) =
       filter is_Filled (bitmap c) @
       map (dot (transform (ds c)) (poseColor pose)) (filter confident (keypoints pose))"
    using filled_dots [of "transform (ds c)" pose]
    by (simp add: drawPose_bitmap filled_lines dots_def)
  have tick_dots: "readyState (video_of fr) = 4 \<and> estimatePoses fr = Inr poses \<longrightarrow>
        filter is_Filled (bitmap (canvas_after (detectPose fr c))) =
          concat (map (\<lambda>p. map (dot (mirror (videoWidth (video_of fr))) (poseColor p))
                             (filter confident (keypoints p))) poses)"
    using filled_concat [of "mirror (videoWidth (video_of fr))" poses]
    by (simp add: detectPose_drawn(1) dots_def [abs_def])
  have still: "\<forall>k \<in> set (keypoints pose). \<not> confident k \<longrightarrow>
         (\<forall>n. kp_name k = Some n \<longrightarrow> findKeypoint pose n \<noteq> None)"
    by (auto simp: findKeypoint_None present_def)
  show ?thesis
    using confident_iff [of kp] drawKeypoint_bitmap [of color kp c] boundary pose_dots
      tick_dots still
    by blast
qed

theorem keypoint_drawn_iff_confident_witness:
  "kp_score (mk ''left_eye'' 3 4 0.5) = Some 0.5
   \<and> drawKeypoint ''red'' (mk ''left_eye'' 3 4 0.5) new_canvas = new_canvas
   \<and> filter is_Filled (bitmap (drawPose two_dots new_canvas)) =
       [dot identity ''red'' (mk ''nose'' 1 2 0.9)]
   \<and> mk ''left_eye'' 3 4 0.5 \<in> set (keypoints two_dots)
   \<and> findKeypoint two_dots ''left_eye'' \<noteq> None
   \<and> readyState (video_of ready_frame) = 4 \<and> estimatePoses ready_frame = Inr [scenario1]
   \<and> filter is_Filled (bitmap (canvas_after (detectPose ready_frame new_canvas))) =
       map (dot (mirror 640) ''green'') (keypoints scenario1)"
proof -
  have rdy: "readyState (video_of ready_frame) = 4" "estimatePoses ready_frame = Inr [scenario1]"
      "videoWidth (video_of ready_frame) = 640"
    by (simp_all add: ready_frame_def)
  have green: "poseColor scenario1 = ''green''"
    by (simp add: poseColor_def verdict_js_pose findKeypoint_def named_def scenario1_def mk_def)
  have all4: "filter confident (keypoints scenario1) = keypoints scenario1"
    by (simp add: scenario1_def confident_def mk_def)
  have half: "kp_score (mk ''left_eye'' 3 4 0.5) = Some 0.5"
    by (simp add: mk_def)
  have mem: "mk ''left_eye'' 3 4 0.5 \<in> set (keypoints two_dots)"
    by (simp add: two_dots_def)
  have low: "\<not> confident (mk ''left_eye'' 3 4 0.5)"
    by (simp add: confident_def mk_def)
  have nm: "kp_name (mk ''left_eye'' 3 4 0.5) = Some ''left_eye''"
    by (simp add: mk_def)
  have col: "poseColor two_dots = ''red''"
    by (simp add: poseColor_def verdict_js_pose findKeypoint_def named_def two_dots_def mk_def)
  have conf: "filter confident (keypoints two_dots) = [mk ''nose'' 1 2 0.9]"
    by (simp add: two_dots_def confident_def mk_def)
  have start: "bitmap new_canvas = []" "transform (ds new_canvas) = identity"
    by (simp_all add: new_canvas_def default_state_def)
  note inst = keypoint_drawn_iff_confident
    [of "mk ''left_eye'' 3 4 0.5" "''red''" new_canvas two_dots ready_frame "[scenario1]"]
  from inst half have "drawKeypoint ''red'' (mk ''left_eye'' 3 4 0.5) new_canvas = new_canvas"
    by blast
  moreover from inst have "filter is_Filled (bitmap (drawPose two_dots new_canvas)) =
       [dot identity ''red'' (mk ''nose'' 1 2 0.9)]"
    by (simp add: col conf start)
  moreover from inst mem low nm have "findKeypoint two_dots ''left_eye'' \<noteq> None"
    by blast
  moreover from inst rdy have
    "filter is_Filled (bitmap (canvas_after (detectPose ready_frame new_canvas))) =
       map (dot (mirror 640) ''green'') (keypoints scenario1)"
    by (simp add: green all4)
  ultimately show ?thesis using half mem rdy by blast
qed

text \<open>
  C3, as the code has it. For every pose and every pair of names, a line of width 2 in
  the colour of the pose is painted between the two keypoints found for the names
  exactly when both are found and both have a score strictly greater than 0.5; the
  stroked shapes a pose adds to the bitmap are these lines for the configured pairs,
  in order. Setting the score of the keypoints of a name to at most 0.5, or removing
  them, suppresses every pair that has the name as an endpoint and the dots of those
  keypoints; a pair without the name keeps its endpoints and the other keypoints keep
  their dots. Lowering a score leaves the colour of the pose as it was; removing one of
  the four names the verdict reads makes the pose red, removing another name leaves
  the colour as it was.
\<close>

theorem edge_drawn_iff_both_confident:
  "(edgeEndpoints pose (a, b) = Some (f, t) \<longleftrightarrow>
      findKeypoint pose a = Some f \<and> findKeypoint pose b = Some t \<and> confident f \<and> confident t)
   \<and> bitmap (drawPair pose color (a, b) c) =
       bitmap c @ (case edgeEndpoints pose (a, b) of None \<Rightarrow> []
                   | Some ends \<Rightarrow> [line (transform (ds c)) color ends])
   \<and> filter is_Stroked (bitmap (drawPose pose c)) =
       filter is_Stroked (bitmap c) @
       map (line (transform (ds c)) (poseColor pose))
         (List.map_filter (edgeEndpoints pose) keypointPairs)
   \<and> (s \<le> 0.5 \<longrightarrow>
        edgeEndpoints (lowerScore n s pose) (a, b) =
          (if a = n \<or> b = n then None else edgeEndpoints pose (a, b)))
   \<and> edgeEndpoints (removeNamed n pose) (a, b) =
        (if a = n \<or> b = n then None else edgeEndpoints pose (a, b))
   \<and> (s \<le> 0.5 \<longrightarrow>
        filter confident (keypoints (lowerScore n s pose)) =
          filter (\<lambda>kp. confident kp \<and> kp_name kp \<noteq> Some n) (keypoints pose))
   \<and> filter confident (keypoints (removeNamed n pose)) =
        filter (\<lambda>kp. confident kp \<and> kp_name kp \<noteq> Some n) (keypoints pose)
   \<and> poseColor (lowerScore n s pose) = poseColor pose
   \<and> poseColor (removeNamed n pose) =
        (if n \<in> {''left_shoulder'', ''right_shoulder'', ''left_hip'', ''right_hip''}
         then ''red'' else poseColor pose)"
proof -
  have ends: "edgeEndpoints pose (a, b) = Some (f, t) \<longleftrightarrow>
      findKeypoint pose a = Some f \<and> findKeypoint pose b = Some t \<and> confident f \<and> confident t"
    by (auto simp: edgeEndpoints_def split: option.splits)
  have strokes: "filter is_Stroked (bitmap (drawPose pose c)) =
       filter is_Stroked (bitmap c) @
       map (line (transform (ds c)) (poseColor pose))
         (List.map_filter (edgeEndpoints pose) keypointPairs)"
    using stroked_lines [of "transform (ds c)" pose]
    by (simp add: drawPose_bitmap stroked_dots lines_def)
  have lower: "s \<le> 0.5 \<longrightarrow>
        edgeEndpoints (lowerScore n s pose) (a, b) =
          (if a = n \<or> b = n then None else edgeEndpoints pose (a, b))"
    using edgeEndpoints_lowerScore_other [of a n b s pose]
      edgeEndpoints_lowerScore_at [of s a n b pose]
    by auto
  have col: "poseColor (lowerScore n s pose) = poseColor pose"
    by (simp add: lowerScore_def poseColor_withScores)
  show ?thesis
    using ends drawPair_bitmap [of pose color "(a, b)" c] strokes lower
      edgeEndpoints_removeNamed [of n pose a b] confident_lowerScore [of s n pose]
      confident_removeNamed [of n pose] col poseColor_removeNamed [of n pose]
    by blast
qed

theorem edge_drawn_iff_both_confident_witness:
  "(0.5::real) \<le> 0.5
   \<and> edgeEndpoints (lowerScore ''left_wrist'' 0.5 arm) (''left_shoulder'', ''left_elbow'') =
       Some (mk ''left_shoulder'' 10 100 0.9, mk ''left_elbow'' 20 150 0.9)
   \<and> edgeEndpoints (lowerScore ''left_wrist'' 0.5 arm) (''left_elbow'', ''left_wrist'') = None
   \<and> edgeEndpoints (removeNamed ''left_wrist'' arm) (''left_elbow'', ''left_wrist'') = None"
proof -
  have s: "(0.5::real) \<le> 0.5" by simp
  have before: "edgeEndpoints arm (''left_shoulder'', ''left_elbow'') =
       Some (mk ''left_shoulder'' 10 100 0.9, mk ''left_elbow'' 20 150 0.9)"
    by (simp add: edgeEndpoints_def findKeypoint_def named_def arm_def mk_def confident_def)
  have "edgeEndpoints (lowerScore ''left_wrist'' 0.5 arm) (''left_shoulder'', ''left_elbow'') =
       Some (mk ''left_shoulder'' 10 100 0.9, mk ''left_elbow'' 20 150 0.9)"
    using edge_drawn_iff_both_confident [where pose = arm and a = "''left_shoulder''"
        and b = "''left_elbow''" and s = "0.5" and n = "''left_wrist''"] s before
    by simp
  moreover
  have "edgeEndpoints (lowerScore ''left_wrist'' 0.5 arm) (''left_elbow'', ''left_wrist'') = None
      \<and> edgeEndpoints (removeNamed ''left_wrist'' arm) (''left_elbow'', ''left_wrist'') = None"
    using edge_drawn_iff_both_confident [where pose = arm and a = "''left_elbow''"
        and b = "''left_wrist''" and s = "0.5" and n = "''left_wrist''"] s
    by simp
  ultimately show ?thesis using s by blast
qed

text \<open>
  The sentence of C3 that lowering an endpoint's confidence suppresses "that edge only"
  fails where two configured pairs share the endpoint: with shoulder, elbow and wrist
  of the left arm all at 0.9, lowering the elbow to 0.5 to suppress the pair of
  shoulder and elbow also suppresses the pair of elbow and wrist. Removing an endpoint
  that the verdict reads also changes the colour of everything else in the pose.
\<close>

theorem edge_isolation_counterexample:
  "(''left_elbow'', ''left_wrist'') \<in> set keypointPairs
   \<and> (''left_elbow'', ''left_wrist'') \<noteq> (''left_shoulder'', ''left_elbow'')
   \<and> edgeEndpoints arm (''left_elbow'', ''left_wrist'') =
       Some (mk ''left_elbow'' 20 150 0.9, mk ''left_wrist'' 30 200 0.9)
   \<and> edgeEndpoints (lowerScore ''left_elbow'' 0.5 arm) (''left_elbow'', ''left_wrist'') = None
   \<and> poseColor scenario1 = ''green''
   \<and> poseColor (removeNamed ''left_hip'' scenario1) = ''red''"
proof -
  have "(''left_elbow'', ''left_wrist'') \<in> set keypointPairs"
    by (simp add: keypointPairs_def)
  moreover have "edgeEndpoints arm (''left_elbow'', ''left_wrist'') =
       Some (mk ''left_elbow'' 20 150 0.9, mk ''left_wrist'' 30 200 0.9)"
    by (simp add: edgeEndpoints_def findKeypoint_def named_def arm_def mk_def confident_def)
  moreover have "edgeEndpoints (lowerScore ''left_elbow'' 0.5 arm) (''left_elbow'', ''left_wrist'') = None"
    by (simp add: edgeEndpoints_def findKeypoint_def named_def arm_def mk_def confident_def
        lowerScore_def withScores_def)
  moreover have "poseColor scenario1 = ''green''"
    by (simp add: poseColor_def verdict_js_pose findKeypoint_def named_def scenario1_def mk_def)
  moreover have "poseColor (removeNamed ''left_hip'' scenario1) = ''red''"
    by (simp add: poseColor_def verdict_js_pose findKeypoint_def named_def scenario1_def
        mk_def removeNamed_def)
  ultimately show ?thesis by simp
qed

section \<open>The verdict and the confidence scores\<close>

text \<open>
  C10. The verdict does not read the scores: rewriting the scores of a pose in any way
  leaves its verdict as it was, and when the four names are present the verdict is the
  comparison of the differences the code computes from the y-coordinates. The pose of
  scenario 1 with every score set to 0.1 has no keypoint above the threshold, so neither
  a dot nor a line is painted for it, and its verdict is true and its colour green.
\<close>

theorem verdict_ignores_confidence:
  "isPerfectAngle (withScores g pose) = isPerfectAngle pose
   \<and> (present pose ''left_shoulder'' \<and> present pose ''right_shoulder'' \<and>
      present pose ''left_hip'' \<and> present pose ''right_hip'' \<longrightarrow>
        (isPerfectAngle (withScores g pose) \<longleftrightarrow>
           js_lt (js_abs (js_sub (y_of pose ''left_shoulder'') (y_of pose ''right_shoulder'')))
             (Finite 20) \<and>
           js_lt (js_abs (js_sub (y_of pose ''left_hip'') (y_of pose ''right_hip'')))
             (Finite 20)))
   \<and> isPerfectAngle (js_pose (withScores (\<lambda>kp. Some 0.1) scenario1))
   \<and> poseColor (withScores (\<lambda>kp. Some 0.1) scenario1) = ''green''
   \<and> filter confident (keypoints (withScores (\<lambda>kp. Some 0.1) scenario1)) = []
   \<and> List.map_filter (edgeEndpoints (withScores (\<lambda>kp. Some 0.1) scenario1)) keypointPairs = []"
proof -
  have low: "isPerfectAngle (js_pose (withScores (\<lambda>kp. Some 0.1) scenario1))"
    using scenario1_aligned by (simp only: verdict_js_withScores)
  have col: "poseColor (withScores (\<lambda>kp. Some 0.1) scenario1) = ''green''"
    using low by (simp add: poseColor_def)
  have nodots: "filter confident (keypoints (withScores (\<lambda>kp. Some 0.1) scenario1)) = []"
    by (simp add: withScores_def scenario1_def mk_def confident_def)
  have nolines: "List.map_filter (edgeEndpoints (withScores (\<lambda>kp. Some 0.1) scenario1))
      keypointPairs = []"
    by (simp add: List.map_filter_def keypointPairs_def edgeEndpoints_def findKeypoint_def
        named_def withScores_def scenario1_def mk_def confident_def)
  have inv: "isPerfectAngle (withScores g pose) = isPerfectAngle pose"
    by (rule isPerfectAngle_withScores)
  have ys: "present pose ''left_shoulder'' \<and> present pose ''right_shoulder'' \<and>
      present pose ''left_hip'' \<and> present pose ''right_hip'' \<longrightarrow>
        (isPerfectAngle (withScores g pose) \<longleftrightarrow>
           js_lt (js_abs (js_sub (y_of pose ''left_shoulder'') (y_of pose ''right_shoulder'')))
             (Finite 20) \<and>
           js_lt (js_abs (js_sub (y_of pose ''left_hip'') (y_of pose ''right_hip'')))
             (Finite 20))"
    using verdict_char [of pose] by (simp only: inv) blast
  show ?thesis using inv ys low col nodots nolines by blast
qed

theorem verdict_ignores_confidence_witness:
  "present (js_pose scenario1) ''left_shoulder'' \<and> present (js_pose scenario1) ''right_shoulder'' \<and>
   present (js_pose scenario1) ''left_hip'' \<and> present (js_pose scenario1) ''right_hip'' \<and>
   isPerfectAngle (withScores (\<lambda>kp. Some 0.5) (js_pose scenario1)) \<and>
   filter confident (keypoints (withScores (\<lambda>kp. Some 0.5) (js_pose scenario1))) = []"
proof -
  have pres: "present (js_pose scenario1) ''left_shoulder''"
      "present (js_pose scenario1) ''right_shoulder''"
      "present (js_pose scenario1) ''left_hip''" "present (js_pose scenario1) ''right_hip''"
    unfolding present_js_pose by (simp_all add: present_def scenario1_def mk_def)
  have ys: "y_of (js_pose scenario1) ''left_shoulder'' = Finite 100"
      "y_of (js_pose scenario1) ''right_shoulder'' = Finite 105"
      "y_of (js_pose scenario1) ''left_hip'' = Finite 200"
      "y_of (js_pose scenario1) ''right_hip'' = Finite 215"
    by (simp_all add: y_of_def findKeypoint_def named_def js_pose_def js_keypoint_def
        scenario1_def mk_def)
  have cmp: "js_lt (js_abs (js_sub (Finite 100) (Finite 105))) (Finite 20)"
      "js_lt (js_abs (js_sub (Finite 200) (Finite 215))) (Finite 20)"
    by (simp_all add: below_20)
  have "present (js_pose scenario1) ''left_shoulder'' \<and>
      present (js_pose scenario1) ''right_shoulder'' \<and>
      present (js_pose scenario1) ''left_hip'' \<and> present (js_pose scenario1) ''right_hip'' \<longrightarrow>
        (isPerfectAngle (withScores (\<lambda>kp. Some 0.5) (js_pose scenario1)) \<longleftrightarrow>
           js_lt (js_abs (js_sub (y_of (js_pose scenario1) ''left_shoulder'')
             (y_of (js_pose scenario1) ''right_shoulder''))) (Finite 20) \<and>
           js_lt (js_abs (js_sub (y_of (js_pose scenario1) ''left_hip'')
             (y_of (js_pose scenario1) ''right_hip''))) (Finite 20))"
    using verdict_ignores_confidence [of "\<lambda>kp. Some 0.5" "js_pose scenario1"] by blast
  then have "isPerfectAngle (withScores (\<lambda>kp. Some 0.5) (js_pose scenario1))"
    using pres cmp by (simp only: ys)
  moreover have "filter confident (keypoints (withScores (\<lambda>kp. Some 0.5) (js_pose scenario1))) = []"
    by (simp add: withScores_def js_pose_def js_keypoint_def scenario1_def mk_def confident_def)
  ultimately show ?thesis using pres by blast
qed

section \<open>The frame loop\<close>

lemma bracket_restores:
  "ds (restore (fold drawPose poses (clearRect px py w h (translate tx ty (scale sx sy (save c))))))
     = ds c"
  "saved (restore (fold drawPose poses (clearRect px py w h (translate tx ty (scale sx sy (save c))))))
     = saved c"
proof -
  let ?c6 = "clearRect px py w h (translate tx ty (scale sx sy (save c)))"
  have "saved (fold drawPose poses ?c6) = ds c # saved c"
    by (simp add: fold_drawPose_frame canvas_defs)
  then show "ds (restore (fold drawPose poses ?c6)) = ds c"
    and "saved (restore (fold drawPose poses ?c6)) = saved c"
    by (simp_all add: restore_def)
qed

lemma scheduled_identity:
  "scheduled (detectPose fr c) \<Longrightarrow> transform (ds (canvas_after (detectPose fr c))) = identity"
proof (cases "readyState (video_of fr) = 4")
  case False
  assume "scheduled (detectPose fr c)"
  with False show ?thesis by (simp add: detectPose_not_ready)
next
  case True
  assume sch: "scheduled (detectPose fr c)"
  show ?thesis
  proof (cases "estimatePoses fr")
    case (Inl e)
    with True sch show ?thesis using detectPose_rejected [of fr e c] by simp
  next
    case (Inr poses)
    with True show ?thesis by (simp add: detectPose_drawn(2) default_state_def)
  qed
qed

lemma tick_starts_identity:
  "transform (ds c0) = identity \<Longrightarrow> \<forall>c \<in> set (tick_starts frs c0). transform (ds c) = identity"
proof (induction frs arbitrary: c0)
  case Nil
  show ?case by simp
next
  case (Cons fr frs)
  show ?case
  proof (cases "scheduled (detectPose fr c0)")
    case True
    then have "transform (ds (canvas_after (detectPose fr c0))) = identity"
      by (rule scheduled_identity)
    then have "\<forall>c \<in> set (tick_starts frs (canvas_after (detectPose fr c0))).
        transform (ds c) = identity"
      by (rule Cons.IH)
    with True Cons.prems show ?thesis by simp
  next
    case False
    with Cons.prems show ?thesis by simp
  qed
qed

lemma map_const_replicate:
  "\<forall>x \<in> set xs. f x = v \<Longrightarrow> map f xs = replicate (length xs) v"
  by (induction xs) simp_all

text \<open>
  C8. A tick that draws applies the mirror transform, which is not the identity, and
  paints under it; when the tick ends the transform is the identity again and the
  stack of saved states is empty. The calls from \<^verbatim>\<open>save\<close> to \<^verbatim>\<open>restore\<close> leave the
  drawing state and the stack of any canvas as they found them. So in a loop that
  starts on a canvas with the identity transform, every tick that runs finds the
  identity transform.
\<close>

theorem mirror_undone_each_tick:
  "(readyState (video_of fr) = 4 \<and> estimatePoses fr = Inr poses \<longrightarrow>
      transform (ds (canvas_after (detectPose fr c))) = identity \<and>
      saved (canvas_after (detectPose fr c)) = [] \<and>
      take 1 (bitmap (canvas_after (detectPose fr c))) =
        [Cleared (mirror (videoWidth (video_of fr))) 0 0
          (real (videoWidth (video_of fr))) (real (videoHeight (video_of fr)))])
   \<and> mirror w \<noteq> identity
   \<and> ds (restore (fold drawPose poses
        (clearRect 0 0 cw ch (translate tx 0 (scale (- 1) 1 (save c)))))) = ds c
   \<and> saved (restore (fold drawPose poses
        (clearRect 0 0 cw ch (translate tx 0 (scale (- 1) 1 (save c)))))) = saved c
   \<and> (transform (ds c0) = identity \<longrightarrow>
        (\<forall>c' \<in> set (tick_starts frs c0). transform (ds c') = identity))"
proof -
  have drawn: "readyState (video_of fr) = 4 \<and> estimatePoses fr = Inr poses \<longrightarrow>
      transform (ds (canvas_after (detectPose fr c))) = identity \<and>
      saved (canvas_after (detectPose fr c)) = [] \<and>
      take 1 (bitmap (canvas_after (detectPose fr c))) =
        [Cleared (mirror (videoWidth (video_of fr))) 0 0
          (real (videoWidth (video_of fr))) (real (videoHeight (video_of fr)))]"
    by (simp add: detectPose_drawn default_state_def)
  have neq: "mirror w \<noteq> identity"
    by (simp add: mirror_def identity_def)
  show ?thesis
    using drawn neq bracket_restores [of poses 0 0 cw ch tx 0 "- 1" 1 c]
      tick_starts_identity [of c0 frs]
    by blast
qed

theorem mirror_undone_each_tick_witness:
  "readyState (video_of ready_frame) = 4 \<and> estimatePoses ready_frame = Inr [scenario1]
   \<and> transform (ds new_canvas) = identity
   \<and> transform (ds (canvas_after (detectPose ready_frame new_canvas))) = identity
   \<and> saved (canvas_after (detectPose ready_frame new_canvas)) = []
   \<and> take 1 (bitmap (canvas_after (detectPose ready_frame new_canvas))) =
       [Cleared (mirror 640) 0 0 640 480]
   \<and> map (\<lambda>c'. transform (ds c')) (tick_starts [ready_frame, ready_frame, ready_frame] new_canvas)
       = [identity, identity, identity]"
proof -
  have rdy: "readyState (video_of ready_frame) = 4" "estimatePoses ready_frame = Inr [scenario1]"
    by (simp_all add: ready_frame_def)
  have dims: "videoWidth (video_of ready_frame) = 640" "videoHeight (video_of ready_frame) = 480"
    by (simp_all add: ready_frame_def)
  have start: "transform (ds new_canvas) = identity"
    by (simp add: new_canvas_def default_state_def)
  have sch: "scheduled (detectPose ready_frame c)" for c
    using rdy by (rule detectPose_drawn(4))
  have len: "length (tick_starts [ready_frame, ready_frame, ready_frame] new_canvas) = 3"
    by (simp add: sch)
  note inst = mirror_undone_each_tick [of ready_frame "[scenario1]" new_canvas 640 0 0 0
      new_canvas "[ready_frame, ready_frame, ready_frame]"]
  from inst start have "\<forall>c' \<in> set (tick_starts [ready_frame, ready_frame, ready_frame] new_canvas).
      transform (ds c') = identity"
    by blast
  then have "map (\<lambda>c'. transform (ds c'))
      (tick_starts [ready_frame, ready_frame, ready_frame] new_canvas) =
      replicate (length (tick_starts [ready_frame, ready_frame, ready_frame] new_canvas)) identity"
    by (rule map_const_replicate)
  then have all: "map (\<lambda>c'. transform (ds c'))
      (tick_starts [ready_frame, ready_frame, ready_frame] new_canvas) =
      [identity, identity, identity]"
    by (simp only: len) (simp add: numeral_3_eq_3)
  from inst rdy dims have one: "transform (ds (canvas_after (detectPose ready_frame new_canvas))) = identity
     \<and> saved (canvas_after (detectPose ready_frame new_canvas)) = []
     \<and> take 1 (bitmap (canvas_after (detectPose ready_frame new_canvas))) =
         [Cleared (mirror 640) 0 0 640 480]"
    by simp
  from rdy start all one show ?thesis by simp
qed

text \<open>
  The length of the loop: as long as every tick finds the video ready and the estimator
  resolves, every offered tick runs; a tick that finds the video not ready is the last.
\<close>

lemma ticks_run_all_ready:
  "\<forall>fr \<in> set frs. readyState (video_of fr) = 4 \<and> (\<exists>poses. estimatePoses fr = Inr poses) \<Longrightarrow>
   ticks_run frs c = length frs"
proof (induction frs arbitrary: c)
  case Nil
  show ?case by (simp add: ticks_run_def)
next
  case (Cons fr frs)
  then obtain poses where fr: "readyState (video_of fr) = 4" "estimatePoses fr = Inr poses"
    by auto
  have "scheduled (detectPose fr c)"
    using fr by (rule detectPose_drawn(4))
  moreover have "ticks_run frs (canvas_after (detectPose fr c)) = length frs"
    using Cons.prems by (intro Cons.IH) simp
  ultimately show ?case by (simp add: ticks_run_def)
qed

lemma ticks_run_waiting:
  "readyState (video_of fr) \<noteq> 4 \<Longrightarrow> ticks_run (fr # frs) c = 1"
  by (simp add: ticks_run_def detectPose_not_ready)

text \<open>
  C4 on the code. A tick that finds \<^verbatim>\<open>readyState\<close> 3 (data for the current and the next
  frame, not yet "enough data") leaves the canvas as it was, which is the first half of
  the claim; but the call \<^verbatim>\<open>requestAnimationFrame(detectPose)\<close> of line 122 stands
  inside the \<^verbatim>\<open>if\<close> of line 72, so no further tick is scheduled: of three ticks offered,
  the first waiting and the next two ready, one runs, while three ready ones all run.
\<close>

theorem waiting_tick_ends_loop:
  "detectPose waiting_frame new_canvas =
     \<lparr>canvas_after = new_canvas, scheduled = False, rejected = None\<rparr>
   \<and> ticks_run [waiting_frame, ready_frame, ready_frame] new_canvas = 1
   \<and> ticks_run [ready_frame, ready_frame, ready_frame] new_canvas = 3"
proof -
  have w: "detectPose waiting_frame new_canvas =
     \<lparr>canvas_after = new_canvas, scheduled = False, rejected = None\<rparr>"
    by (simp add: detectPose_not_ready waiting_frame_def)
  have sch: "scheduled (detectPose ready_frame c)" for c
    by (rule detectPose_drawn(4) [of ready_frame "[scenario1]"]) (simp_all add: ready_frame_def)
  show ?thesis
    using w by (simp add: ticks_run_def sch)
qed

section \<open>Properties of the permission gate and of Retry\<close>

lemmas init_defs = emit_def setError_def handleError_def modelError_def
  startVideoStream_def loadModel_def

lemma trace_startVideoStream:
  "\<exists>xs. trace (startVideoStream b s) = trace s @ xs \<and> PermissionsQuery \<notin> set xs"
  by (simp add: init_defs Let_def split: option.splits)

lemma trace_loadModel:
  "\<exists>xs. trace (loadModel b s) = trace s @ xs \<and> PermissionsQuery \<notin> set xs"
  by (simp add: init_defs Let_def split: option.splits)

lemma new_actions_append: "trace s' = trace s @ xs \<Longrightarrow> new_actions s s' = xs"
  by (simp add: new_actions_def)

lemma loadModel_willing:
  "set_backend b = None \<Longrightarrow> tf_ready b = None \<Longrightarrow> create_detector b = None \<Longrightarrow>
   refs_mounted b \<Longrightarrow> context_2d b \<Longrightarrow> get_user_media b = None \<Longrightarrow> video_play b = None \<Longrightarrow>
   loadModel b s = s\<lparr>trace := trace s @
     [SetBackend, TfReady, CreateDetector, GetContext,
      ConsoleLog ''Attempting to access user media...'', GetUserMedia, AttachStream, Play,
      DetectPoseCall]\<rparr>"
  by (simp add: init_defs Let_def)

lemma errorMessage_cases:
  "errorMessage e \<in>
     {''Camera access was denied. Please allow camera access and try again.'',
      ''No camera device found. Please ensure a camera is connected and try again.'',
      ''The fetching process for the media resource was aborted. Please try again.'',
      ''The media device is not readable. Please check your camera and try again.'',
      ''The constraints specified are not supported by the device. Please check your camera settings and try again.'',
      ''Security error while accessing the camera. Please check your browser settings and try again.'',
      ''An error occurred while accessing the camera.''}"
  by (simp add: errorMessage_def)

text \<open>
  C6. \<^verbatim>\<open>handleError\<close> sets the error text to a message that depends only on the name
  of the thrown value: one fixed message for each of NotAllowedError, NotFoundError,
  AbortError, NotReadableError, OverconstrainedError and SecurityError, and the
  generic camera message for every other value; the seven messages are pairwise
  different.
\<close>

theorem errorMessage_table:
  "errorMessage (JsError (Some ''NotAllowedError'')) =
     ''Camera access was denied. Please allow camera access and try again.''
   \<and> errorMessage (JsError (Some ''NotFoundError'')) =
     ''No camera device found. Please ensure a camera is connected and try again.''
   \<and> errorMessage (JsError (Some ''AbortError'')) =
     ''The fetching process for the media resource was aborted. Please try again.''
   \<and> errorMessage (JsError (Some ''NotReadableError'')) =
     ''The media device is not readable. Please check your camera and try again.''
   \<and> errorMessage (JsError (Some ''OverconstrainedError'')) =
     ''The constraints specified are not supported by the device. Please check your camera settings and try again.''
   \<and> errorMessage (JsError (Some ''SecurityError'')) =
     ''Security error while accessing the camera. Please check your browser settings and try again.''
   \<and> (error_name e \<notin> {Some ''NotAllowedError'', Some ''NotFoundError'', Some ''AbortError'',
         Some ''NotReadableError'', Some ''OverconstrainedError'', Some ''SecurityError''} \<longrightarrow>
        errorMessage e = ''An error occurred while accessing the camera.'')
   \<and> distinct (map errorMessage
        [JsError (Some ''NotAllowedError''), JsError (Some ''NotFoundError''),
         JsError (Some ''AbortError''), JsError (Some ''NotReadableError''),
         JsError (Some ''OverconstrainedError''), JsError (Some ''SecurityError''),
         JsError None])
   \<and> error (handleError e s) = Some (errorMessage e)"
proof -
  have six: "errorMessage (JsError (Some ''NotAllowedError'')) =
     ''Camera access was denied. Please allow camera access and try again.''"
    "errorMessage (JsError (Some ''NotFoundError'')) =
     ''No camera device found. Please ensure a camera is connected and try again.''"
    "errorMessage (JsError (Some ''AbortError'')) =
     ''The fetching process for the media resource was aborted. Please try again.''"
    "errorMessage (JsError (Some ''NotReadableError'')) =
     ''The media device is not readable. Please check your camera and try again.''"
    "errorMessage (JsError (Some ''OverconstrainedError'')) =
     ''The constraints specified are not supported by the device. Please check your camera settings and try again.''"
    "errorMessage (JsError (Some ''SecurityError'')) =
     ''Security error while accessing the camera. Please check your browser settings and try again.''"
    by (simp_all add: errorMessage_def)
  have generic: "errorMessage (JsError None) = ''An error occurred while accessing the camera.''"
    by (simp add: errorMessage_def)
  have other: "error_name e \<notin> {Some ''NotAllowedError'', Some ''NotFoundError'', Some ''AbortError'',
         Some ''NotReadableError'', Some ''OverconstrainedError'', Some ''SecurityError''} \<longrightarrow>
        errorMessage e = ''An error occurred while accessing the camera.''"
    by (simp add: errorMessage_def)
  have dist: "distinct (map errorMessage
        [JsError (Some ''NotAllowedError''), JsError (Some ''NotFoundError''),
         JsError (Some ''AbortError''), JsError (Some ''NotReadableError''),
         JsError (Some ''OverconstrainedError''), JsError (Some ''SecurityError''),
         JsError None])"
    by (simp add: six generic)
  have set: "error (handleError e s) = Some (errorMessage e)"
    by (simp add: handleError_def emit_def setError_def)
  show ?thesis using six other dist set by blast
qed

theorem errorMessage_table_witness:
  "error_name (JsError (Some ''TypeError'')) \<notin> {Some ''NotAllowedError'', Some ''NotFoundError'',
      Some ''AbortError'', Some ''NotReadableError'', Some ''OverconstrainedError'',
      Some ''SecurityError''}
   \<and> errorMessage (JsError (Some ''TypeError'')) = ''An error occurred while accessing the camera.''
   \<and> error (handleError (JsError (Some ''TypeError'')) mounted) =
       Some ''An error occurred while accessing the camera.''"
proof -
  have n: "error_name (JsError (Some ''TypeError'')) \<notin> {Some ''NotAllowedError'',
      Some ''NotFoundError'', Some ''AbortError'', Some ''NotReadableError'',
      Some ''OverconstrainedError'', Some ''SecurityError''}"
    by simp
  have m: "errorMessage (JsError (Some ''TypeError'')) = ''An error occurred while accessing the camera.''"
    using errorMessage_table [of "JsError (Some ''TypeError'')" mounted] n by blast
  have "error (handleError (JsError (Some ''TypeError'')) mounted) =
      Some (errorMessage (JsError (Some ''TypeError'')))"
    using errorMessage_table [of "JsError (Some ''TypeError'')" mounted] by blast
  with n m show ?thesis by simp
qed

text \<open>
  The outcomes of the effect run on mount. Granted: the rest of the run is
  \<^verbatim>\<open>loadModel\<close>. Prompt: it calls \<^verbatim>\<open>getUserMedia\<close> and, when that resolves, stops the
  tracks of the stream and only then runs \<^verbatim>\<open>loadModel\<close>. Denied: it sets the fixed
  denial text and does nothing more. When the promise of the query rejects, it sets the
  text about being unable to check permissions and does nothing more; that text differs
  from the denial text and from every message of \<^verbatim>\<open>handleError\<close>. When the call of
  the query throws, the exception leaves the effect and the error text stays as it was.
\<close>

lemma permission_gate_outcomes:
  "(permission_query b = Inr Granted \<longrightarrow>
      useEffect b s = loadModel b (emit PermissionsQuery s))
   \<and> (permission_query b = Inr Prompt \<and> probe_media b = None \<longrightarrow>
      useEffect b s =
        loadModel b (emit StopTracks (emit GetUserMedia (emit PermissionsQuery s))))
   \<and> (permission_query b = Inr Denied \<longrightarrow>
      error (useEffect b s) =
        Some ''Camera access is denied. Please enable camera permissions in your browser settings.'' \<and>
      new_actions s (useEffect b s) =
        [PermissionsQuery,
         SetError (Some ''Camera access is denied. Please enable camera permissions in your browser settings.'')])
   \<and> (permission_query b = Inl (Rejected e) \<longrightarrow>
      error (useEffect b s) = Some ''Unable to check camera permissions. Please try again.'' \<and>
      new_actions s (useEffect b s) =
        [PermissionsQuery, ConsoleError ''Error checking camera permissions:'',
         SetError (Some ''Unable to check camera permissions. Please try again.'')])
   \<and> (permission_query b = Inl (Thrown e) \<longrightarrow>
      error (useEffect b s) = error s \<and>
      new_actions s (useEffect b s) = [PermissionsQuery, Uncaught e])
   \<and> ''Unable to check camera permissions. Please try again.'' \<noteq>
       ''Camera access is denied. Please enable camera permissions in your browser settings.''
   \<and> errorMessage e' \<noteq> ''Unable to check camera permissions. Please try again.''"
proof -
  have granted: "permission_query b = Inr Granted \<longrightarrow>
      useEffect b s = loadModel b (emit PermissionsQuery s)"
    by (simp add: useEffect_def)
  have prompt: "permission_query b = Inr Prompt \<and> probe_media b = None \<longrightarrow>
      useEffect b s =
        loadModel b (emit StopTracks (emit GetUserMedia (emit PermissionsQuery s)))"
    by (simp add: useEffect_def)
  have denied: "permission_query b = Inr Denied \<longrightarrow>
      error (useEffect b s) =
        Some ''Camera access is denied. Please enable camera permissions in your browser settings.'' \<and>
      new_actions s (useEffect b s) =
        [PermissionsQuery,
         SetError (Some ''Camera access is denied. Please enable camera permissions in your browser settings.'')]"
    by (simp add: useEffect_def emit_def setError_def new_actions_def)
  have rejected: "permission_query b = Inl (Rejected e) \<longrightarrow>
      error (useEffect b s) = Some ''Unable to check camera permissions. Please try again.'' \<and>
      new_actions s (useEffect b s) =
        [PermissionsQuery, ConsoleError ''Error checking camera permissions:'',
         SetError (Some ''Unable to check camera permissions. Please try again.'')]"
    by (simp add: useEffect_def emit_def setError_def new_actions_def)
  have thrown: "permission_query b = Inl (Thrown e) \<longrightarrow>
      error (useEffect b s) = error s \<and>
      new_actions s (useEffect b s) = [PermissionsQuery, Uncaught e]"
    by (simp add: useEffect_def emit_def new_actions_def)
  have d1: "''Unable to check camera permissions. Please try again.'' \<noteq>
       ''Camera access is denied. Please enable camera permissions in your browser settings.''"
    by simp
  have d2: "errorMessage e' \<noteq> ''Unable to check camera permissions. Please try again.''"
    by (simp add: errorMessage_def)
  show ?thesis using granted prompt denied rejected thrown d1 d2 by blast
qed

lemma permission_gate_examples:
  "useEffect willing mounted =
       \<lparr>error = None, trace = [PermissionsQuery, SetBackend, TfReady, CreateDetector, GetContext,
          ConsoleLog ''Attempting to access user media...'', GetUserMedia, AttachStream, Play,
          DetectPoseCall]\<rparr>
   \<and> useEffect asking mounted =
       \<lparr>error = None, trace = [PermissionsQuery, GetUserMedia, StopTracks, SetBackend, TfReady,
          CreateDetector, GetContext, ConsoleLog ''Attempting to access user media...'',
          GetUserMedia, AttachStream, Play, DetectPoseCall]\<rparr>
   \<and> useEffect denying mounted =
       \<lparr>error = Some ''Camera access is denied. Please enable camera permissions in your browser settings.'',
        trace = [PermissionsQuery,
          SetError (Some ''Camera access is denied. Please enable camera permissions in your browser settings.'')]\<rparr>
   \<and> useEffect broken_query mounted =
       \<lparr>error = Some ''Unable to check camera permissions. Please try again.'',
        trace = [PermissionsQuery, ConsoleError ''Error checking camera permissions:'',
          SetError (Some ''Unable to check camera permissions. Please try again.'')]\<rparr>"
  by (simp add: useEffect_def loadModel_willing willing_def asking_def denying_def
      broken_query_def emit_def setError_def mounted_def)

text \<open>
  C7 on the code. The three outcomes by permission state and the message for a query
  whose promise rejects are as the claim says. But the call
  \<^verbatim>\<open>navigator.permissions.query(...)\<close> of line 148 stands in no \<^verbatim>\<open>try\<close>, and the
  \<^verbatim>\<open>.catch\<close> of line 163 is attached only to the promise it returns: in a browser
  without the Permissions API the call itself throws a TypeError, the exception leaves
  the effect uncaught, no error text is set and nothing is initialized. A query whose
  promise rejects with the same TypeError does set the text.
\<close>

theorem thrown_query_sets_no_message:
  "useEffect no_permissions_api mounted =
     \<lparr>error = None, trace = [PermissionsQuery, Uncaught (JsError (Some ''TypeError''))]\<rparr>
   \<and> error (useEffect no_permissions_api mounted) \<noteq>
     Some ''Unable to check camera permissions. Please try again.''
   \<and> error (useEffect broken_query mounted) =
     Some ''Unable to check camera permissions. Please try again.''"
  by (simp add: useEffect_def no_permissions_api_def broken_query_def willing_def emit_def
      setError_def mounted_def)

text \<open>
  C5, as the code has it. \<^verbatim>\<open>retry\<close> first sets the error text to \<^verbatim>\<open>null\<close> and then
  runs \<^verbatim>\<open>loadModel\<close>: backend, readiness and detector, then the capture and the start
  of the loop. It never queries the permission, and what it does is the same whatever
  the error text was. In a browser where every call succeeds the run ends with no
  error text.
\<close>

theorem retry_reruns_loadModel:
  "take 1 (new_actions s (retry b s)) = [SetError None]
   \<and> PermissionsQuery \<notin> set (new_actions s (retry b s))
   \<and> retry b (s\<lparr>error := e1\<rparr>) = retry b (s\<lparr>error := e2\<rparr>)
   \<and> (set_backend b = None \<and> tf_ready b = None \<and> create_detector b = None \<and>
      refs_mounted b \<and> context_2d b \<and> get_user_media b = None \<and> video_play b = None \<longrightarrow>
        error (retry b s) = None \<and>
        new_actions s (retry b s) =
          [SetError None, SetBackend, TfReady, CreateDetector, GetContext,
           ConsoleLog ''Attempting to access user media...'', GetUserMedia, AttachStream, Play,
           DetectPoseCall])"
proof -
  obtain xs where xs: "trace (loadModel b (setError None s)) = trace (setError None s) @ xs"
      "PermissionsQuery \<notin> set xs"
    using trace_loadModel [of b "setError None s"] by blast
  have tr: "trace (retry b s) = trace s @ SetError None # xs"
    using xs(1) by (simp add: retry_def setError_def)
  have new: "new_actions s (retry b s) = SetError None # xs"
    using tr by (simp add: new_actions_def)
  have first: "take 1 (new_actions s (retry b s)) = [SetError None]"
    by (simp add: new)
  have noquery: "PermissionsQuery \<notin> set (new_actions s (retry b s))"
    using xs(2) by (simp add: new)
  have same: "retry b (s\<lparr>error := e1\<rparr>) = retry b (s\<lparr>error := e2\<rparr>)"
    by (simp add: retry_def setError_def)
  have ok: "set_backend b = None \<and> tf_ready b = None \<and> create_detector b = None \<and>
      refs_mounted b \<and> context_2d b \<and> get_user_media b = None \<and> video_play b = None \<longrightarrow>
        error (retry b s) = None \<and>
        new_actions s (retry b s) =
          [SetError None, SetBackend, TfReady, CreateDetector, GetContext,
           ConsoleLog ''Attempting to access user media...'', GetUserMedia, AttachStream, Play,
           DetectPoseCall]"
    by (simp add: retry_def loadModel_willing setError_def new_actions_def)
  show ?thesis using first noquery same ok by blast
qed

theorem retry_reruns_loadModel_witness:
  "set_backend willing = None \<and> tf_ready willing = None \<and> create_detector willing = None \<and>
   refs_mounted willing \<and> context_2d willing \<and> get_user_media willing = None \<and>
   video_play willing = None
   \<and> error (retry willing (useEffect broken_query mounted)) = None
   \<and> new_actions (useEffect broken_query mounted) (retry willing (useEffect broken_query mounted)) =
       [SetError None, SetBackend, TfReady, CreateDetector, GetContext,
        ConsoleLog ''Attempting to access user media...'', GetUserMedia, AttachStream, Play,
        DetectPoseCall]"
proof -
  have w: "set_backend willing = None \<and> tf_ready willing = None \<and> create_detector willing = None \<and>
      refs_mounted willing \<and> context_2d willing \<and> get_user_media willing = None \<and>
      video_play willing = None"
    by (simp add: willing_def)
  show ?thesis
    using retry_reruns_loadModel [of "useEffect broken_query mounted" willing] w by blast
qed

text \<open>
  The sentence of C5 that Retry runs the permission check, then the capture, then the
  model load fails: after the denial of the permission, Retry in a browser where every
  call succeeds makes exactly the calls below, with no permission query among them and
  with the detector created before \<^verbatim>\<open>getUserMedia\<close> is called.
\<close>

theorem retry_sequence_counterexample:
  "error (useEffect denying mounted) =
     Some ''Camera access is denied. Please enable camera permissions in your browser settings.''
   \<and> new_actions (useEffect denying mounted) (retry willing (useEffect denying mounted)) =
       [SetError None, SetBackend, TfReady, CreateDetector, GetContext,
        ConsoleLog ''Attempting to access user media...'', GetUserMedia, AttachStream, Play,
        DetectPoseCall]
   \<and> PermissionsQuery \<notin>
       set (new_actions (useEffect denying mounted) (retry willing (useEffect denying mounted)))"
proof -
  have d: "useEffect denying mounted =
      \<lparr>error = Some ''Camera access is denied. Please enable camera permissions in your browser settings.'',
       trace = [PermissionsQuery,
         SetError (Some ''Camera access is denied. Please enable camera permissions in your browser settings.'')]\<rparr>"
    by (simp add: useEffect_def denying_def emit_def setError_def mounted_def)
  have n: "new_actions (useEffect denying mounted) (retry willing (useEffect denying mounted)) =
       [SetError None, SetBackend, TfReady, CreateDetector, GetContext,
        ConsoleLog ''Attempting to access user media...'', GetUserMedia, AttachStream, Play,
        DetectPoseCall]"
    by (simp add: d retry_def loadModel_willing willing_def setError_def new_actions_def)
  show ?thesis by (simp add: n) (simp add: d)
qed

section \<open>The banner after a denial\<close>

text \<open>
  C9, as the code has it. When the permission query resolves to denied, the banner
  shows the fixed denial text with the Retry button and the video element is hidden
  by \<^verbatim>\<open>display: none\<close>. The canvas element is rendered as always, its style setting
  no \<^verbatim>\<open>display\<close>; the run has not started the frame loop, so nothing is drawn on it.
\<close>

theorem denied_view:
  "permission_query b = Inr Denied \<longrightarrow>
     banner_text (render (useEffect b s)) =
       Some ''Camera access is denied. Please enable camera permissions in your browser settings.'' \<and>
     retry_button (render (useEffect b s)) \<and>
     hidden (video_display (render (useEffect b s))) \<and>
     canvas_display (render (useEffect b s)) = None \<and>
     \<not> hidden (canvas_display (render (useEffect b s))) \<and>
     DetectPoseCall \<notin> set (new_actions s (useEffect b s))"
  by (simp add: useEffect_def emit_def setError_def new_actions_def render_def truthy_def
      hidden_def)

theorem denied_view_witness:
  "permission_query denying = Inr Denied
   \<and> render (useEffect denying mounted) =
       \<lparr>banner_text = Some ''Camera access is denied. Please enable camera permissions in your browser settings.'',
        retry_button = True, video_display = Some ''none'', canvas_display = None\<rparr>
   \<and> DetectPoseCall \<notin> set (new_actions mounted (useEffect denying mounted))"
proof -
  have d: "permission_query denying = Inr Denied"
    by (simp add: denying_def)
  have v: "video_display (render (useEffect denying mounted)) = Some ''none''"
    using denied_view [of denying mounted] d by (simp add: hidden_def)
  show ?thesis
    using denied_view [of denying mounted] d v
    by (cases "render (useEffect denying mounted)") simp
qed

text \<open>
  The sentence of C9 that the canvas is not shown fails: after the denial the canvas of
  the rendered tree is not hidden.
\<close>

theorem canvas_shown_counterexample:
  "permission_query denying = Inr Denied
   \<and> hidden (video_display (render (useEffect denying mounted)))
   \<and> \<not> hidden (canvas_display (render (useEffect denying mounted)))"
  by (simp add: denying_def render_def hidden_def truthy_def useEffect_def emit_def
      setError_def)

end
